theory Spec2Isabelle
  imports Complex_Main
begin

section \<open>Python values, exceptions and the response envelope\<close>

text \<open>
  The client library \<^verbatim>\<open>inlyse/cli.py\<close> is embedded function by function.
  Python values of type \<^verbatim>\<open>Any\<close> (the decoded body of a response) are a datatype
  of their own, so that subscripting or multiplying a value of the wrong shape is
  a branch of the model, as it is an exception of the program. A dict is an
  association list read by first match; a parsed dict holds each key once.

  Floats are modelled as reals, so rounding, infinities and NaN are outside the
  model. Where an operation raises on the finite range of a double, the model
  raises too: the conversion of an integer to a float in a product, and the
  length \<^verbatim>\<open>time.sleep\<close> accepts. Debug logging is left out.
\<close>

type_synonym bytes = string

datatype pyval =
    PNone
  | PBool bool
  | PInt int
  | PFloat real
  | PStr string
  | PBytes bytes
  | PList "pyval list"
  | PDict "(string \<times> pyval) list"

text \<open>
  \<^verbatim>\<open>InlyseApiError.__init__\<close> pops the keyword \<^verbatim>\<open>response\<close> into the attribute
  of that name and ignores the positional arguments, which Python keeps in
  \<^verbatim>\<open>args\<close>: the constructor carries both. \<open>LibraryError\<close> stands for whatever a
  library call raises that the client does not raise itself (a connection error,
  a JSON decoding error).
\<close>

datatype error =
    InlyseApiError "pyval list" "pyval option"
  | RateLimitExceeded string
  | MaxRetriesExceeded string
  | KeyError string
  | TypeError
  | ValueError
  | OverflowError
  | LibraryError string

datatype tzinfo = UTC

record datetime =
  day :: int
  month :: int
  year :: int
  hour :: int
  minute :: int
  second :: int
  tzinfo :: "tzinfo option"

text \<open>The dictionary \<^verbatim>\<open>quota\<close> built by the decorator has exactly three keys.\<close>

record quota =
  limit :: int
  remaining :: int
  reset :: datetime

record InlyseResponse =
  endpoint :: string
  status :: int
  rate_limit :: "quota option"
  content_type :: "string \<times> (string \<times> string) list"
  content :: pyval

text \<open>
  A \<^verbatim>\<open>requests.Response\<close>, as far as the decorator reads it. Its header
  dictionary compares names without regard to case; the map is keyed by the
  lower-case name.
\<close>

record Response =
  status_code :: int
  headers :: "string \<rightharpoonup> string"
  http_content :: bytes

text \<open>
  The library functions the decorator and the session property call are
  parameters of the model: \<^verbatim>\<open>int\<close> on a string, \<^verbatim>\<open>datetime.strptime\<close>,
  \<^verbatim>\<open>_parse_content_type_header\<close>, \<^verbatim>\<open>Response.json\<close>, \<^verbatim>\<open>urljoin\<close>, and the
  headers a new session starts with.
\<close>

record pylib =
  py_int :: "string \<Rightarrow> error + int"
  strptime :: "string \<Rightarrow> string \<Rightarrow> error + datetime"
  parse_content_type_header :: "string \<Rightarrow> string \<times> (string \<times> string) list"
  response_json :: "Response \<Rightarrow> error + pyval"
  urljoin :: "string \<Rightarrow> string \<Rightarrow> string"
  default_headers :: "(string \<times> string) list"

section \<open>The decorator \<^verbatim>\<open>endpoint\<close>\<close>

definition lookup_header :: "Response \<Rightarrow> string \<Rightarrow> error + string" where
  "lookup_header response name =
     (case headers response name of
        None \<Rightarrow> Inl (KeyError name)
      | Some v \<Rightarrow> Inr v)"

text \<open>Lines 74 to 85 of the wrapper: the rate-limit snapshot.\<close>

definition endpoint_quota :: "pylib \<Rightarrow> Response \<Rightarrow> error + quota option" where
  "endpoint_quota lib response =
     (if headers response ''x-ratelimit-remaining'' \<noteq> None then
        (case lookup_header response ''x-ratelimit-limit'' of
           Inl e \<Rightarrow> Inl e
         | Inr l \<Rightarrow>
        (case py_int lib l of
           Inl e \<Rightarrow> Inl e
         | Inr limit_v \<Rightarrow>
        (case lookup_header response ''x-ratelimit-remaining'' of
           Inl e \<Rightarrow> Inl e
         | Inr r \<Rightarrow>
        (case py_int lib r of
           Inl e \<Rightarrow> Inl e
         | Inr remaining_v \<Rightarrow>
        (case lookup_header response ''x-ratelimit-reset'' of
           Inl e \<Rightarrow> Inl e
         | Inr t \<Rightarrow>
        (case strptime lib t ''%d-%m-%Y %H:%M:%S'' of
           Inl e \<Rightarrow> Inl e
         | Inr d \<Rightarrow>
             Inr (Some \<lparr>limit = limit_v, remaining = remaining_v,
                        reset = d\<lparr>tzinfo := Some UTC\<rparr>\<rparr>)))))))
      else Inr None)"

text \<open>
  The wrapper itself. \<open>func_result\<close> is what the decorated method returned or
  raised; \<open>self_url\<close> is \<^verbatim>\<open>self.url\<close>.
\<close>

definition endpoint_wrapper ::
  "pylib \<Rightarrow> string \<Rightarrow> string \<Rightarrow> error + Response \<Rightarrow> error + InlyseResponse" where
  "endpoint_wrapper lib self_url path func_result =
     (case func_result of
        Inl e \<Rightarrow> Inl e
      | Inr response \<Rightarrow>
     (case endpoint_quota lib response of
        Inl e \<Rightarrow> Inl e
      | Inr quota_v \<Rightarrow>
     (case lookup_header response ''content-type'' of
        Inl e \<Rightarrow> Inl e
      | Inr ct \<Rightarrow>
     (case (if fst (parse_content_type_header lib ct) = ''application/json''
            then response_json lib response
            else Inr (PBytes (http_content response))) of
        Inl e \<Rightarrow> Inl e
      | Inr c \<Rightarrow>
          Inr \<lparr>endpoint = urljoin lib self_url path,
               status = status_code response,
               rate_limit = quota_v,
               content_type = parse_content_type_header lib ct,
               content = c\<rparr>))))"

section \<open>The client and its session\<close>

text \<open>
  Sessions are objects with identity: the heap is the list of all sessions ever
  created, a reference is an index into it, and \<^verbatim>\<open>self._api\<close> is a reference
  or \<^verbatim>\<open>None\<close>.
\<close>

datatype timeout_t = TimeoutFloat real | TimeoutTuple real real

record Retry =
  retry_total :: int
  backoff_factor :: int
  status_forcelist :: "int list"
  allowed_methods :: "string list"
  raise_on_status :: bool

datatype adapter = HTTPAdapter | TimeoutHTTPAdapter timeout_t Retry

record BaseUrlSession =
  base_url :: string
  session_headers :: "(string \<times> string) list"
  adapters :: "string \<rightharpoonup> adapter"
  is_closed :: bool

type_synonym heap = "BaseUrlSession list"

record WebClient =
  url :: string
  license_key :: string
  timeout :: timeout_t
  private_api :: "nat option"

definition WebClient_init :: "string \<Rightarrow> string \<Rightarrow> timeout_t \<Rightarrow> WebClient" where
  "WebClient_init key u t =
     \<lparr>url = u, license_key = key, timeout = t, private_api = None\<rparr>"

definition sessions_BaseUrlSession :: "pylib \<Rightarrow> string \<Rightarrow> BaseUrlSession" where
  "sessions_BaseUrlSession lib base =
     \<lparr>base_url = base,
      session_headers = default_headers lib,
      adapters = [''https://'' \<mapsto> HTTPAdapter, ''http://'' \<mapsto> HTTPAdapter],
      is_closed = False\<rparr>"

definition mount :: "string \<Rightarrow> adapter \<Rightarrow> BaseUrlSession \<Rightarrow> BaseUrlSession" where
  "mount prefix a session = session\<lparr>adapters := (adapters session)(prefix \<mapsto> a)\<rparr>"

definition retry_strategy :: Retry where
  "retry_strategy =
     \<lparr>retry_total = 3, backoff_factor = 1, status_forcelist = [429, 503],
      allowed_methods = [''GET''], raise_on_status = False\<rparr>"

text \<open>The session a client with these attributes builds in the property.\<close>

definition new_session :: "pylib \<Rightarrow> WebClient \<Rightarrow> BaseUrlSession" where
  "new_session lib self =
     (let session = sessions_BaseUrlSession lib (url self);
          a = TimeoutHTTPAdapter (timeout self) retry_strategy;
          session = session\<lparr>session_headers :=
                      [(''Authorization'', ''Bearer '' @ license_key self)]\<rparr>;
          session = mount ''http://'' a session;
          session = mount ''https://'' a session
      in session)"

text \<open>
  The property \<^verbatim>\<open>api\<close>: returns the reference of the session to use, the
  client and the heap after the call.
\<close>

definition WebClient_api :: "pylib \<Rightarrow> WebClient \<Rightarrow> heap \<Rightarrow> nat \<times> WebClient \<times> heap" where
  "WebClient_api lib self h =
     (case private_api self of
        Some r \<Rightarrow> (r, self, h)
      | None \<Rightarrow> (length h, self\<lparr>private_api := Some (length h)\<rparr>, h @ [new_session lib self]))"

definition WebClient_close :: "WebClient \<Rightarrow> heap \<Rightarrow> WebClient \<times> heap" where
  "WebClient_close self h =
     (case private_api self of
        Some r \<Rightarrow> (self\<lparr>private_api := None\<rparr>, h[r := (h ! r)\<lparr>is_closed := True\<rparr>])
      | None \<Rightarrow> (self\<lparr>private_api := None\<rparr>, h))"

text \<open>The setter of the property closes the client when it is given \<^verbatim>\<open>None\<close>.\<close>

definition WebClient_api_setter :: "WebClient \<Rightarrow> heap \<Rightarrow> nat option \<Rightarrow> WebClient \<times> heap" where
  "WebClient_api_setter self h v =
     (case v of None \<Rightarrow> WebClient_close self h | Some _ \<Rightarrow> (self, h))"

text \<open>
  A request as it leaves the client: \<^verbatim>\<open>self.api.get(path, params=...)\<close> reads
  the property and sends on the session it returns.
\<close>

record http_request =
  req_method :: string
  req_path :: string
  req_params :: "(string \<times> string) list"
  req_session :: nat

definition api_get ::
  "pylib \<Rightarrow> WebClient \<Rightarrow> heap \<Rightarrow> string \<Rightarrow> (string \<times> string) list
     \<Rightarrow> http_request \<times> WebClient \<times> heap" where
  "api_get lib self h path params =
     (case WebClient_api lib self h of
        (r, self', h') \<Rightarrow>
          (\<lparr>req_method = ''GET'', req_path = path, req_params = params,
            req_session = r\<rparr>, self', h'))"

text \<open>The body of \<^verbatim>\<open>ping\<close>, before the decorator wraps its response.\<close>

definition WebClient_ping :: "pylib \<Rightarrow> WebClient \<Rightarrow> heap \<Rightarrow> http_request \<times> WebClient \<times> heap" where
  "WebClient_ping lib self h = api_get lib self h ''/ping'' []"

text \<open>
  The body of \<^verbatim>\<open>list_analyses(filter_="all")\<close>: the warnings it logs
  (format string and argument) and the request it sends. An argument left out
  is \<open>None\<close>.
\<close>

definition WebClient_list_analyses ::
  "pylib \<Rightarrow> WebClient \<Rightarrow> heap \<Rightarrow> string option \<Rightarrow> string
     \<Rightarrow> (string \<times> string) list \<times> http_request \<times> WebClient \<times> heap" where
  "WebClient_list_analyses lib self h filter_opt path =
     (let filter_v = (case filter_opt of None \<Rightarrow> ''all'' | Some f \<Rightarrow> f) in
      case (if filter_v \<notin> set [''all'', ''finished'', ''unfinished'', ''error'']
            then ([(''Unknown filter %s.'', filter_v)], ''all'')
            else ([], filter_v)) of
        (warnings, f) \<Rightarrow>
          (case api_get lib self h path [(''filter'', f)] of
             (req, self', h') \<Rightarrow> (warnings, req, self', h')))"

section \<open>Waiting and polling\<close>

text \<open>
  What the poll loop does to the outside is a trace of events. The methods it
  calls on the client, the random generator and the clock are the world it
  runs in: \<open>check w aid k\<close> is the outcome of the \<open>k\<close>-th call
  \<^verbatim>\<open>self.check(aid)\<close> (counting from 0), \<open>rnd w k\<close> the \<open>k\<close>-th value of
  \<^verbatim>\<open>random.random()\<close>, and \<open>sleep_raises w t\<close> the exception
  \<^verbatim>\<open>time.sleep(t)\<close> raises, if any: which lengths it refuses (negative ones,
  and those beyond the range of the platform's clock) and with which exception
  differs between platforms and Python versions.
\<close>

datatype event = UploadCall string | CheckCall pyval | Sleep real

record pstate =
  events :: "event list"
  rng :: nat

definition init_state :: pstate where
  "init_state = \<lparr>events = [], rng = 0\<rparr>"

type_synonym kwargs = "(string \<times> pyval) list"

record world =
  check :: "pyval \<Rightarrow> nat \<Rightarrow> error + InlyseResponse"
  rnd :: "nat \<Rightarrow> real"
  sleep_raises :: "real \<Rightarrow> error option"
  upload_file :: "kwargs \<Rightarrow> error + InlyseResponse"
  upload_url :: "kwargs \<Rightarrow> error + InlyseResponse"
  upload_owa :: "kwargs \<Rightarrow> error + InlyseResponse"

fun is_check :: "event \<Rightarrow> bool" where
  "is_check (CheckCall _) = True"
| "is_check _ = False"

fun is_sleep :: "event \<Rightarrow> bool" where
  "is_sleep (Sleep _) = True"
| "is_sleep _ = False"

definition count_checks :: "event list \<Rightarrow> nat" where
  "count_checks evs = length (filter is_check evs)"

definition call_check :: "world \<Rightarrow> pyval \<Rightarrow> pstate \<Rightarrow> (error + InlyseResponse) \<times> pstate" where
  "call_check w aid s =
     (check w aid (count_checks (events s)), s\<lparr>events := events s @ [CheckCall aid]\<rparr>)"

definition time_sleep :: "world \<Rightarrow> real \<Rightarrow> pstate \<Rightarrow> (error + unit) \<times> pstate" where
  "time_sleep w t s =
     (case sleep_raises w t of
        Some e \<Rightarrow> (Inl e, s)
      | None \<Rightarrow> (Inr (), s\<lparr>events := events s @ [Sleep t]\<rparr>))"

definition random_random :: "world \<Rightarrow> pstate \<Rightarrow> real \<times> pstate" where
  "random_random w s = (rnd w (rng s), s\<lparr>rng := Suc (rng s)\<rparr>)"

text \<open>
  An integer operand of a float operation is converted to a float first, and
  the conversion raises \<^verbatim>\<open>OverflowError\<close> when the integer rounds to
  \<open>2 ^ 1024\<close> or beyond: from the magnitude \<open>2 ^ 1024 - 2 ^ 970\<close> on.
\<close>

definition py_float_of_int :: "int \<Rightarrow> error + real" where
  "py_float_of_int n =
     (if \<bar>n\<bar> < 2 ^ 1024 - 2 ^ 970 then Inr (of_int n) else Inl OverflowError)"

text \<open>
  \<^verbatim>\<open>2**attempt\<close> as the operand of \<^verbatim>\<open>base * 2**attempt\<close>. For an exponent
  that is not negative the power is an integer, converted when it is multiplied
  by the float \<open>base\<close>; for a negative exponent Python computes the power over
  floats and converts the exponent. (An exponent so large that the integer
  power itself cannot be computed is not told apart from the overflow.)
\<close>

definition py_pow2_float :: "int \<Rightarrow> error + real" where
  "py_pow2_float attempt =
     (if 0 \<le> attempt then py_float_of_int (2 ^ nat attempt)
      else (case py_float_of_int attempt of
              Inl e \<Rightarrow> Inl e
            | Inr _ \<Rightarrow> Inr (2 powi attempt)))"

text \<open>
  A Python number that is an int or a float. \<^verbatim>\<open>min(cap, x)\<close> for an int
  \<open>cap\<close> and a float \<open>x\<close> compares the two exactly and returns the first
  argument when they are equal.
\<close>

datatype number = IntNum int | FloatNum real

definition py_min :: "int \<Rightarrow> real \<Rightarrow> number" where
  "py_min cap x = (if of_int cap \<le> x then IntNum cap else FloatNum x)"

text \<open>
  \<^verbatim>\<open>random.uniform(a, b)\<close> is \<^verbatim>\<open>a + (b - a) * self.random()\<close>; the client
  calls it with the integer 0 for \<open>a\<close>, so an integer \<open>b\<close> is converted
  when it is multiplied by the random value, after that value is drawn.
\<close>

definition random_uniform :: "world \<Rightarrow> number \<Rightarrow> pstate \<Rightarrow> (error + real) \<times> pstate" where
  "random_uniform w b s =
     (case random_random w s of
        (r, s') \<Rightarrow>
          (case (case b of IntNum n \<Rightarrow> py_float_of_int (n - 0) | FloatNum x \<Rightarrow> Inr (x - 0)) of
             Inl e \<Rightarrow> (Inl e, s')
           | Inr d \<Rightarrow> (Inr (0 + d * r), s')))"

definition WebClient_wait ::
  "world \<Rightarrow> int \<Rightarrow> real \<Rightarrow> int \<Rightarrow> real \<Rightarrow> pstate \<Rightarrow> (error + real) \<times> pstate" where
  "WebClient_wait w attempt avg_time cap base s =
     (case (if attempt = 0 then time_sleep w avg_time s else (Inr (), s)) of
        (Inl e, s1) \<Rightarrow> (Inl e, s1)
      | (Inr _, s1) \<Rightarrow>
          (case py_pow2_float attempt of
             Inl e \<Rightarrow> (Inl e, s1)
           | Inr p \<Rightarrow>
               (case random_uniform w (py_min cap (base * p)) s1 of
                  (Inl e, s2) \<Rightarrow> (Inl e, s2)
                | (Inr back_offtime, s2) \<Rightarrow>
                    (case time_sleep w back_offtime s2 of
                       (Inl e, s3) \<Rightarrow> (Inl e, s3)
                     | (Inr _, s3) \<Rightarrow> (Inr back_offtime, s3)))))"

definition wait_default_cap :: int where
  "wait_default_cap = 40"

definition wait_default_base :: real where
  "wait_default_base = 1 / 10"

text \<open>
  The \<^verbatim>\<open>while\<close> loop of \<^verbatim>\<open>get_analysis\<close>, from the value \<open>retries\<close> of its
  counter.
\<close>

function get_analysis_loop ::
  "world \<Rightarrow> pyval \<Rightarrow> real \<Rightarrow> int \<Rightarrow> int \<Rightarrow> pstate \<Rightarrow> (error + InlyseResponse) \<times> pstate" where
  "get_analysis_loop w analysis_id estimated_time max_retries retries s =
     (if retries < max_retries then
        (case call_check w analysis_id s of
           (Inl e, s1) \<Rightarrow> (Inl e, s1)
         | (Inr response, s1) \<Rightarrow>
             if status response = 200 then (Inr response, s1)
             else if status response = 202 then
               (case WebClient_wait w retries estimated_time
                       wait_default_cap wait_default_base s1 of
                  (Inl e, s2) \<Rightarrow> (Inl e, s2)
                | (Inr _, s2) \<Rightarrow>
                    get_analysis_loop w analysis_id estimated_time max_retries
                      (retries + 1) s2)
             else if status response = 429 then
               (Inl (RateLimitExceeded ''Your rate limte exceeded.''), s1)
             else (Inl (InlyseApiError [content response] None), s1))
      else
        (Inl (MaxRetriesExceeded
          ''Max retries exceeded. Please increase the number of retries or the estimated waiting time.''),
         s))"
  by pat_completeness auto
termination
  by (relation "measure (\<lambda>(w, a, e, m, r, s). nat (m - r))") auto

declare get_analysis_loop.simps [simp del]

text \<open>
  \<^verbatim>\<open>get_analysis(analysis_id, estimated_time=5.83675, max_retries=3)\<close>: an
  argument left out is \<open>None\<close>.
\<close>

definition WebClient_get_analysis ::
  "world \<Rightarrow> pyval \<Rightarrow> real option \<Rightarrow> int option \<Rightarrow> pstate
     \<Rightarrow> (error + InlyseResponse) \<times> pstate" where
  "WebClient_get_analysis w analysis_id estimated_time max_retries s =
     get_analysis_loop w analysis_id
       (case estimated_time of None \<Rightarrow> 583675 / 100000 | Some t \<Rightarrow> t)
       (case max_retries of None \<Rightarrow> 3 | Some m \<Rightarrow> m)
       0 s"

section \<open>Submitting\<close>

definition py_getitem :: "pyval \<Rightarrow> string \<Rightarrow> error + pyval" where
  "py_getitem v k =
     (case v of
        PDict d \<Rightarrow> (case map_of d k of None \<Rightarrow> Inl (KeyError k) | Some x \<Rightarrow> Inr x)
      | _ \<Rightarrow> Inl TypeError)"

text \<open>
  The values \<^verbatim>\<open>v * x\<close> is defined on for a float \<open>x\<close>: ints, floats and
  bools (a bool is an int). Every other value a JSON body can hold raises
  \<^verbatim>\<open>TypeError\<close>; an int is converted first and may raise \<^verbatim>\<open>OverflowError\<close>.
\<close>

definition py_is_number :: "pyval \<Rightarrow> bool" where
  "py_is_number v =
     (case v of PInt _ \<Rightarrow> True | PFloat _ \<Rightarrow> True | PBool _ \<Rightarrow> True | _ \<Rightarrow> False)"

definition py_float :: "pyval \<Rightarrow> error + real" where
  "py_float v =
     (case v of
        PInt n \<Rightarrow> py_float_of_int n
      | PFloat y \<Rightarrow> Inr y
      | PBool b \<Rightarrow> Inr (if b then 1 else 0)
      | _ \<Rightarrow> Inl TypeError)"

definition py_mul_float :: "pyval \<Rightarrow> real \<Rightarrow> error + real" where
  "py_mul_float v x =
     (case py_float v of
        Inl e \<Rightarrow> Inl e
      | Inr y \<Rightarrow> Inr (y * x))"

definition upload_methods :: "world \<Rightarrow> string \<rightharpoonup> (kwargs \<Rightarrow> error + InlyseResponse)" where
  "upload_methods w =
     [''file'' \<mapsto> upload_file w, ''url'' \<mapsto> upload_url w, ''owa'' \<mapsto> upload_owa w]"

definition WebClient_upload ::
  "world \<Rightarrow> string \<Rightarrow> int \<Rightarrow> kwargs \<Rightarrow> pstate \<Rightarrow> (error + InlyseResponse) \<times> pstate" where
  "WebClient_upload w upload_type max_retries kw s =
     (case upload_methods w upload_type of
        None \<Rightarrow> (Inl (KeyError upload_type), s)
      | Some m \<Rightarrow>
          (let s1 = s\<lparr>events := events s @ [UploadCall upload_type]\<rparr> in
           case m kw of
             Inl e \<Rightarrow> (Inl e, s1)
           | Inr response \<Rightarrow>
               if status response = 429 then
                 (Inl (RateLimitExceeded ''Your rate limte exceeded.''), s1)
               else if status response > 299 \<or> status response < 200 then
                 (Inl (InlyseApiError [content response] None), s1)
               else
                 (case py_getitem (content response) ''EstimatedAnalysisTime'' of
                    Inl e \<Rightarrow> (Inl e, s1)
                  | Inr t \<Rightarrow>
                 (case py_mul_float t (2 / 10) of
                    Inl e \<Rightarrow> (Inl e, s1)
                  | Inr estimated_time \<Rightarrow>
                 (case py_getitem (content response) ''id'' of
                    Inl e \<Rightarrow> (Inl e, s1)
                  | Inr analysis_id \<Rightarrow>
                      WebClient_get_analysis w analysis_id (Some estimated_time)
                        (Some max_retries) s1)))))"

definition scan_default_max_retries :: int where
  "scan_default_max_retries = 15"

definition WebClient_scan_file ::
  "world \<Rightarrow> string \<Rightarrow> bytes \<Rightarrow> int option \<Rightarrow> pstate \<Rightarrow> (error + InlyseResponse) \<times> pstate" where
  "WebClient_scan_file w filename file_content max_retries s =
     WebClient_upload w ''file''
       (case max_retries of None \<Rightarrow> scan_default_max_retries | Some m \<Rightarrow> m)
       [(''filename'', PStr filename), (''content'', PBytes file_content)] s"

definition WebClient_scan_url ::
  "world \<Rightarrow> string \<Rightarrow> int option \<Rightarrow> pstate \<Rightarrow> (error + InlyseResponse) \<times> pstate" where
  "WebClient_scan_url w u max_retries s =
     WebClient_upload w ''url''
       (case max_retries of None \<Rightarrow> scan_default_max_retries | Some m \<Rightarrow> m)
       [(''url'', PStr u)] s"

definition WebClient_scan_owa ::
  "world \<Rightarrow> string \<Rightarrow> string \<Rightarrow> int option \<Rightarrow> pstate \<Rightarrow> (error + InlyseResponse) \<times> pstate" where
  "WebClient_scan_owa w u token max_retries s =
     WebClient_upload w ''owa''
       (case max_retries of None \<Rightarrow> scan_default_max_retries | Some m \<Rightarrow> m)
       [(''url'', PStr u), (''token'', PStr token)] s"

section \<open>Properties of traces and worlds\<close>

text \<open>The \<open>k\<close>-th check call answers with status 202.\<close>

definition pending :: "world \<Rightarrow> pyval \<Rightarrow> nat \<Rightarrow> bool" where
  "pending w aid k = (case check w aid k of Inl _ \<Rightarrow> False | Inr r \<Rightarrow> status r = 202)"

text \<open>The contract of \<^verbatim>\<open>random.random()\<close>: every value lies in \<open>[0, 1)\<close>.\<close>

definition rnd_ok :: "world \<Rightarrow> bool" where
  "rnd_ok w = (\<forall>k. 0 \<le> rnd w k \<and> rnd w k < 1)"

text \<open>
  \<^verbatim>\<open>time.sleep\<close> accepts every length from 0 to 40 seconds, the cap of the
  backoff.
\<close>

definition sleep_ok :: "world \<Rightarrow> bool" where
  "sleep_ok w = (\<forall>t. 0 \<le> t \<and> t \<le> 40 \<longrightarrow> sleep_raises w t = None)"

text \<open>
  The order of events the specification describes for the poll loop: the first
  sleep or check call of the trace, if there is one, is the sleep of the full
  estimated time.
\<close>

definition courtesy_wait_first :: "real \<Rightarrow> event list \<Rightarrow> bool" where
  "courtesy_wait_first estimated_time evs =
     (case dropWhile (\<lambda>e. \<not> is_sleep e \<and> \<not> is_check e) evs of
        [] \<Rightarrow> True
      | e # _ \<Rightarrow> e = Sleep estimated_time)"

section \<open>Concrete inputs\<close>

definition example_envelope :: "int \<Rightarrow> pyval \<Rightarrow> InlyseResponse" where
  "example_envelope st c =
     \<lparr>endpoint = ''https://malware.ai/api/analysis/{id}'', status = st, rate_limit = None,
      content_type = (''application/json'', [(''charset'', ''UTF-8'')]), content = c\<rparr>"

text \<open>
  A clock as CPython 3.11 on Linux has it: lengths beyond the range of the
  clock raise \<^verbatim>\<open>OverflowError\<close>, other negative lengths \<^verbatim>\<open>ValueError\<close>.
\<close>

definition example_sleep_raises :: "real \<Rightarrow> error option" where
  "example_sleep_raises t =
     (if t < - 9223372036 \<or> 9223372036 < t then Some OverflowError
      else if t < 0 then Some ValueError
      else None)"

text \<open>
  A world whose check calls answer with the statuses \<open>sts\<close> in turn (and fail
  to connect after the last of them), whose uploads answer with \<open>up\<close> and
  whose random generator always draws one half.
\<close>

definition example_world :: "int list \<Rightarrow> InlyseResponse \<Rightarrow> world" where
  "example_world sts up =
     \<lparr>check = (\<lambda>aid k. if k < length sts
                        then Inr (example_envelope (sts ! k) (PDict [(''ID'', aid)]))
                        else Inl (LibraryError ''ConnectionError'')),
      rnd = (\<lambda>k. 1 / 2),
      sleep_raises = example_sleep_raises,
      upload_file = (\<lambda>kw. Inr up),
      upload_url = (\<lambda>kw. Inr up),
      upload_owa = (\<lambda>kw. Inr up)\<rparr>"

definition example_upload :: "int \<Rightarrow> pyval \<Rightarrow> InlyseResponse" where
  "example_upload st c =
     \<lparr>endpoint = ''https://malware.ai/api/files/'', status = st, rate_limit = None,
      content_type = (''application/json'', [(''charset'', ''UTF-8'')]), content = c\<rparr>"

text \<open>An integer a JSON body can carry and no float can hold.\<close>

definition example_huge_int :: int where
  "example_huge_int = 10 ^ 400"

definition example_lib :: pylib where
  "example_lib =
     \<lparr>py_int = (\<lambda>s. if s = ''100'' then Inr 100 else if s = ''99'' then Inr 99
                       else Inl ValueError),
      strptime = (\<lambda>s f. if s = ''20-03-2023 22:16:47'' \<and> f = ''%d-%m-%Y %H:%M:%S''
                       then Inr \<lparr>day = 20, month = 3, year = 2023, hour = 22, minute = 16,
                                 second = 47, tzinfo = None\<rparr>
                       else Inl ValueError),
      parse_content_type_header = (\<lambda>s. if s = ''application/json; charset=UTF-8''
                       then (''application/json'', [(''charset'', ''UTF-8'')]) else (s, [])),
      response_json = (\<lambda>r. if http_content r = ''[]'' then Inr (PList [])
                       else Inl (LibraryError ''JSONDecodeError'')),
      urljoin = (\<lambda>a b. a @ b),
      default_headers = [(''Accept'', ''*/*'')]\<rparr>"

definition example_response :: "(string \<rightharpoonup> string) \<Rightarrow> bytes \<Rightarrow> Response" where
  "example_response hs b = \<lparr>status_code = 200, headers = hs, http_content = b\<rparr>"

definition example_rate_limit_headers :: "string \<rightharpoonup> string" where
  "example_rate_limit_headers =
     [''content-type'' \<mapsto> ''application/json; charset=UTF-8'',
      ''x-ratelimit-limit'' \<mapsto> ''100'',
      ''x-ratelimit-remaining'' \<mapsto> ''99'',
      ''x-ratelimit-reset'' \<mapsto> ''20-03-2023 22:16:47'']"

definition example_pdf_headers :: "string \<rightharpoonup> string" where
  "example_pdf_headers = [''content-type'' \<mapsto> ''application/pdf'']"

definition example_client :: "nat option \<Rightarrow> WebClient" where
  "example_client r =
     \<lparr>url = ''https://malware.ai'', license_key = ''test'', timeout = TimeoutTuple 5 60,
      private_api = r\<rparr>"

section \<open>Integers, floats and the wait\<close>

text \<open>
  A power of two converts to a float up to \<open>2 ^ 1023\<close> and no further, so
  \<^verbatim>\<open>base * 2**attempt\<close> has a value for the attempts 0 to 1023 and raises
  \<^verbatim>\<open>OverflowError\<close> from attempt 1024 on.
\<close>

lemma float_of_small_power:
  assumes "n \<le> 1023"
  shows "py_float_of_int (2 ^ n) = Inr (2 ^ n)"
proof -
  have "(2::int) ^ n \<le> 2 ^ 1023"
    using assms by (intro power_increasing) simp_all
  moreover have "(2::int) ^ 1023 < 2 ^ 1024 - 2 ^ 970"
    by simp
  ultimately have "\<bar>(2::int) ^ n\<bar> < 2 ^ 1024 - 2 ^ 970"
    by simp
  then show ?thesis
    by (simp add: py_float_of_int_def)
qed

lemma float_of_large_power:
  assumes "1024 \<le> n"
  shows "py_float_of_int (2 ^ n) = Inl OverflowError"
proof -
  have "(2::int) ^ 1024 \<le> 2 ^ n"
    using assms by (intro power_increasing) simp_all
  moreover have "(2::int) ^ 1024 - 2 ^ 970 \<le> 2 ^ 1024"
    by simp
  ultimately have "\<not> \<bar>(2::int) ^ n\<bar> < 2 ^ 1024 - 2 ^ 970"
    by simp
  then show ?thesis
    by (simp add: py_float_of_int_def)
qed

lemma pow2_float_returns:
  "0 \<le> attempt \<Longrightarrow> attempt < 1024 \<Longrightarrow> py_pow2_float attempt = Inr (2 powi attempt)"
  by (simp add: py_pow2_float_def float_of_small_power power_int_def)

lemma pow2_float_overflow:
  "1024 \<le> attempt \<Longrightarrow> py_pow2_float attempt = Inl OverflowError"
  by (simp add: py_pow2_float_def float_of_large_power)

lemma pow2_float_value:
  "py_pow2_float attempt = Inr p \<Longrightarrow> p = 2 powi attempt"
  by (auto simp: py_pow2_float_def py_float_of_int_def power_int_def split: if_splits sum.splits)

text \<open>
  With the default cap and base, \<^verbatim>\<open>_wait\<close> either raises or returns the
  backoff \<open>min 40 (0.1 * 2 ^ attempt)\<close> times the random value, having slept
  it, and on attempt 0 the estimated time before it. It returns when the
  attempt number is between 0 and 1023, the random value lies in \<open>[0, 1)\<close>
  and \<^verbatim>\<open>time.sleep\<close> accepts the lengths.
\<close>

lemma uniform_default_cap:
  "random_uniform w (py_min wait_default_cap x) s
     = (Inr (min 40 x * rnd w (rng s)), s\<lparr>rng := Suc (rng s)\<rparr>)"
  by (simp add: random_uniform_def random_random_def py_min_def wait_default_cap_def
        py_float_of_int_def min_def)

lemma wait_value:
  assumes "WebClient_wait w attempt avg_time wait_default_cap wait_default_base s = (Inr b, s')"
  shows "b = min 40 (1 / 10 * 2 powi attempt) * rnd w (rng s)
       \<and> events s' = events s @ (if attempt = 0 then [Sleep avg_time, Sleep b] else [Sleep b])
       \<and> rng s' = Suc (rng s)"
proof -
  obtain p where p: "py_pow2_float attempt = Inr p"
    using assms by (auto simp: WebClient_wait_def split: if_splits prod.splits sum.splits)
  then have pv: "p = 2 powi attempt" by (rule pow2_float_value)
  show ?thesis
    using assms p
    by (auto simp: WebClient_wait_def uniform_default_cap wait_default_base_def pv time_sleep_def
             split: if_splits option.splits)
qed

lemma wait_returns:
  assumes "0 \<le> rnd w (rng s)" and "rnd w (rng s) < 1" and "sleep_ok w"
    and "attempt = 0 \<longrightarrow> sleep_raises w avg_time = None"
    and "0 \<le> attempt" and "attempt < 1024"
  shows "WebClient_wait w attempt avg_time wait_default_cap wait_default_base s =
           (Inr (min 40 (1 / 10 * 2 powi attempt) * rnd w (rng s)),
            \<lparr>events = events s @ (if attempt = 0 then [Sleep avg_time] else [])
                 @ [Sleep (min 40 (1 / 10 * 2 powi attempt) * rnd w (rng s))],
             rng = Suc (rng s)\<rparr>)"
proof -
  define m :: real where "m = min 40 (1 / 10 * 2 powi attempt)"
  have m0: "0 \<le> m" and m40: "m \<le> 40" by (simp_all add: m_def)
  have b0: "0 \<le> m * rnd w (rng s)" using m0 assms(1) by simp
  have "m * rnd w (rng s) \<le> m * 1"
    using m0 assms(2) by (intro mult_left_mono) simp_all
  then have "m * rnd w (rng s) \<le> 40" using m40 by simp
  then have ok: "sleep_raises w (m * rnd w (rng s)) = None"
    using b0 assms(3) by (simp add: sleep_ok_def)
  have p: "py_pow2_float attempt = Inr (2 powi attempt)"
    using assms(5,6) by (rule pow2_float_returns)
  show ?thesis
  proof (cases "attempt = 0")
    case True
    with assms(4) ok p show ?thesis
      by (simp add: WebClient_wait_def uniform_default_cap wait_default_base_def time_sleep_def m_def)
  next
    case False
    with ok p show ?thesis
      by (simp add: WebClient_wait_def uniform_default_cap wait_default_base_def time_sleep_def m_def)
  qed
qed

lemma wait_overflow:
  assumes "1024 \<le> attempt"
  shows "WebClient_wait w attempt avg_time cap base s = (Inl OverflowError, s)"
  using assms by (simp add: WebClient_wait_def pow2_float_overflow)

section \<open>The poll loop, step by step\<close>

text \<open>Counting the check calls of a trace.\<close>

lemma count_checks_append [simp]:
  "count_checks (xs @ ys) = count_checks xs + count_checks ys"
  by (simp add: count_checks_def)

lemma count_checks_simps [simp]:
  "count_checks [] = 0"
  "count_checks (CheckCall a # xs) = Suc (count_checks xs)"
  "count_checks (Sleep t # xs) = count_checks xs"
  "count_checks (UploadCall u # xs) = count_checks xs"
  by (simp_all add: count_checks_def)

text \<open>One iteration of the loop, by the outcome of its check call.\<close>

lemma loop_exhausted:
  "\<not> retries < m \<Longrightarrow>
   get_analysis_loop w aid est m retries s =
     (Inl (MaxRetriesExceeded
        ''Max retries exceeded. Please increase the number of retries or the estimated waiting time.''), s)"
  by (subst get_analysis_loop.simps) simp

lemma loop_raises:
  "retries < m \<Longrightarrow> check w aid (count_checks (events s)) = Inl e \<Longrightarrow>
   get_analysis_loop w aid est m retries s = (Inl e, s\<lparr>events := events s @ [CheckCall aid]\<rparr>)"
  by (subst get_analysis_loop.simps) (simp add: call_check_def)

lemma loop_done:
  "retries < m \<Longrightarrow> check w aid (count_checks (events s)) = Inr r \<Longrightarrow> status r = 200 \<Longrightarrow>
   get_analysis_loop w aid est m retries s = (Inr r, s\<lparr>events := events s @ [CheckCall aid]\<rparr>)"
  by (subst get_analysis_loop.simps) (simp add: call_check_def)

lemma loop_rate_limited:
  "retries < m \<Longrightarrow> check w aid (count_checks (events s)) = Inr r \<Longrightarrow> status r = 429 \<Longrightarrow>
   get_analysis_loop w aid est m retries s =
     (Inl (RateLimitExceeded ''Your rate limte exceeded.''), s\<lparr>events := events s @ [CheckCall aid]\<rparr>)"
  by (subst get_analysis_loop.simps) (simp add: call_check_def)

lemma loop_api_error:
  "retries < m \<Longrightarrow> check w aid (count_checks (events s)) = Inr r \<Longrightarrow>
   status r \<noteq> 200 \<Longrightarrow> status r \<noteq> 202 \<Longrightarrow> status r \<noteq> 429 \<Longrightarrow>
   get_analysis_loop w aid est m retries s =
     (Inl (InlyseApiError [content r] None), s\<lparr>events := events s @ [CheckCall aid]\<rparr>)"
  by (subst get_analysis_loop.simps) (simp add: call_check_def)

lemma loop_pending:
  "retries < m \<Longrightarrow> check w aid (count_checks (events s)) = Inr r \<Longrightarrow> status r = 202 \<Longrightarrow>
   get_analysis_loop w aid est m retries s =
     (case WebClient_wait w retries est wait_default_cap wait_default_base
             (s\<lparr>events := events s @ [CheckCall aid]\<rparr>) of
        (Inl e, s2) \<Rightarrow> (Inl e, s2)
      | (Inr _, s2) \<Rightarrow> get_analysis_loop w aid est m (retries + 1) s2)"
  by (subst get_analysis_loop.simps) (simp add: call_check_def)

text \<open>
  \<open>k\<close> pending answers in a row take the loop through \<open>k\<close> iterations, each
  with one check call followed by its wait, as long as no attempt number
  reaches 1024.
\<close>

lemma loop_pending_rounds:
  assumes "\<forall>j<k. pending w aid (count_checks (events s) + j)"
    and "retries + int k \<le> m" and "0 \<le> retries" and "retries + int k \<le> 1024"
    and "sleep_raises w est = None" and "rnd_ok w" and "sleep_ok w"
  shows "\<exists>s'. get_analysis_loop w aid est m retries s =
                 get_analysis_loop w aid est m (retries + int k) s'
           \<and> count_checks (events s') = count_checks (events s) + k"
  using assms
proof (induction k arbitrary: retries s)
  case 0
  then show ?case by auto
next
  case (Suc k)
  from Suc.prems(1) have "pending w aid (count_checks (events s))"
    by (metis add.right_neutral zero_less_Suc)
  then obtain r where r: "check w aid (count_checks (events s)) = Inr r" "status r = 202"
    by (auto simp: pending_def split: sum.splits)
  have lt: "retries < m" using Suc.prems(2) by simp
  let ?s1 = "s\<lparr>events := events s @ [CheckCall aid]\<rparr>"
  have r0: "0 \<le> rnd w (rng ?s1)" "rnd w (rng ?s1) < 1"
    using Suc.prems(6) by (simp_all add: rnd_ok_def)
  have att: "retries < 1024" using Suc.prems(4) by simp
  obtain b s2 where w: "WebClient_wait w retries est wait_default_cap wait_default_base ?s1 = (Inr b, s2)"
    and ev2: "events s2 = events s @ [CheckCall aid] @ (if retries = 0 then [Sleep est] else []) @ [Sleep b]"
    using wait_returns [OF r0 Suc.prems(7) _ Suc.prems(3) att, of est] Suc.prems(5)
    by simp
  have step: "get_analysis_loop w aid est m retries s = get_analysis_loop w aid est m (retries + 1) s2"
    using loop_pending [OF lt r, of est] w by simp
  have c2: "count_checks (events s2) = Suc (count_checks (events s))"
    using ev2 by simp
  have "\<forall>j<k. pending w aid (count_checks (events s2) + j)"
    using Suc.prems(1) c2 by (metis Suc_less_eq add_Suc_shift)
  moreover have "retries + 1 + int k \<le> m" using Suc.prems(2) by simp
  moreover have "0 \<le> retries + 1" using Suc.prems(3) by simp
  moreover have "retries + 1 + int k \<le> 1024" using Suc.prems(4) by simp
  ultimately obtain s' where s': "get_analysis_loop w aid est m (retries + 1) s2 =
         get_analysis_loop w aid est m (retries + 1 + int k) s'"
      "count_checks (events s') = count_checks (events s2) + k"
    using Suc.IH [of s2 "retries + 1"] Suc.prems(5,6,7) by blast
  have "retries + 1 + int k = retries + int (Suc k)" by simp
  then show ?case using step s'(1,2) c2 by (metis add_Suc_shift)
qed

lemma get_analysis_unfold:
  "WebClient_get_analysis w aid (Some est) (Some m) s = get_analysis_loop w aid est m 0 s"
  by (simp add: WebClient_get_analysis_def)


text \<open>Neither the wait nor the loop removes an event from the trace.\<close>

lemma wait_events:
  "\<exists>evs. events (snd (WebClient_wait w a t c b s)) = events s @ evs"
  by (auto simp: WebClient_wait_def time_sleep_def random_uniform_def random_random_def
           split: sum.splits option.splits number.splits)

lemma loop_events:
  "\<exists>evs. events (snd (get_analysis_loop w aid est m r s)) = events s @ evs"
proof (induction w aid est m r s rule: get_analysis_loop.induct)
  case (1 w aid est m r s)
  show ?case
  proof (cases "r < m")
    case False
    then show ?thesis by (simp add: loop_exhausted)
  next
    case True
    let ?s1 = "s\<lparr>events := events s @ [CheckCall aid]\<rparr>"
    show ?thesis
    proof (cases "check w aid (count_checks (events s))")
      case (Inl e)
      with True show ?thesis by (simp add: loop_raises)
    next
      case (Inr resp)
      show ?thesis
      proof (cases "status resp = 202")
        case False
        with True Inr show ?thesis
          by (cases "status resp = 200"; cases "status resp = 429")
             (simp_all add: loop_done loop_rate_limited loop_api_error)
      next
        case p: True
        obtain x s2 where w: "WebClient_wait w r est wait_default_cap wait_default_base ?s1 = (x, s2)"
          by (cases "WebClient_wait w r est wait_default_cap wait_default_base ?s1") auto
        from wait_events [of w r est wait_default_cap wait_default_base ?s1] w
        obtain evs where evs: "events s2 = events s @ [CheckCall aid] @ evs" by auto
        show ?thesis
        proof (cases x)
          case (Inl e)
          with True Inr p w evs show ?thesis
            by (simp add: loop_pending)
        next
          case (Inr y)
          have cc: "call_check w aid s = (Inr resp, ?s1)"
            using \<open>check w aid (count_checks (events s)) = Inr resp\<close> by (simp add: call_check_def)
          have "\<exists>evs. events (snd (get_analysis_loop w aid est m (r + 1) s2)) = events s2 @ evs"
            using "1.IH" [OF True cc [symmetric] refl _ p w [symmetric] Inr] p by simp
          then show ?thesis
            using True \<open>check w aid (count_checks (events s)) = Inr resp\<close> p w Inr evs
            by (auto simp: loop_pending)
        qed
      qed
    qed
  qed
qed

text \<open>
  Whatever the first check call answers, it is the first thing the loop does.
\<close>

lemma first_event_is_check:
  assumes "0 < m"
  shows "\<exists>rest. events (snd (get_analysis_loop w aid est m 0 s)) = events s @ CheckCall aid # rest"
proof (cases "check w aid (count_checks (events s))")
  case (Inl e)
  with assms show ?thesis by (simp add: loop_raises)
next
  case (Inr resp)
  show ?thesis
  proof (cases "status resp = 202")
    case False
    with assms Inr show ?thesis
      by (cases "status resp = 200"; cases "status resp = 429")
         (simp_all add: loop_done loop_rate_limited loop_api_error)
  next
    case True
    let ?s1 = "s\<lparr>events := events s @ [CheckCall aid]\<rparr>"
    obtain x s2 where w: "WebClient_wait w 0 est wait_default_cap wait_default_base ?s1 = (x, s2)"
      by (cases "WebClient_wait w 0 est wait_default_cap wait_default_base ?s1") auto
    from wait_events [of w 0 est wait_default_cap wait_default_base ?s1] w
    obtain evs where evs: "events s2 = events s @ CheckCall aid # evs"
      by auto
    have step: "get_analysis_loop w aid est m 0 s =
       (case (x, s2) of
          (Inl e, s2) \<Rightarrow> (Inl e, s2)
        | (Inr _, s2) \<Rightarrow> get_analysis_loop w aid est m (0 + 1) s2)"
      using loop_pending [OF assms Inr True, of est] w by simp
    show ?thesis
    proof (cases x)
      case (Inl e)
      with step evs show ?thesis by simp
    next
      case (Inr y)
      with step evs loop_events [of w aid est m "0 + 1" s2] show ?thesis by auto
    qed
  qed
qed

text \<open>
  The example worlds keep the contracts of the random generator and the clock.
\<close>

lemma example_world_ok:
  "rnd_ok (example_world sts up)" "sleep_ok (example_world sts up)"
  "sleep_raises (example_world sts up) 5 = None"
  by (simp_all add: rnd_ok_def sleep_ok_def example_world_def example_sleep_raises_def)

lemma example_world_pending:
  "j < length sts \<Longrightarrow> sts ! j = 202 \<Longrightarrow> pending (example_world sts up) aid j"
  by (simp add: pending_def example_world_def example_envelope_def)

lemma example_huge_int_overflows: "2 ^ 1024 - 2 ^ 970 \<le> \<bar>example_huge_int\<bar>"
  by (simp add: example_huge_int_def)

section \<open>The poll loop\<close>

text \<open>
  C1, as it holds. Let \<^verbatim>\<open>time.sleep\<close> accept the estimated time and every
  length up to 40 seconds, and the random values lie in \<open>[0, 1)\<close>. If the next
  three check calls answer 202, 202, 200 and \<open>max_retries\<close> is at least 3,
  \<^verbatim>\<open>get_analysis\<close> returns the envelope of the 200 answer after exactly three
  check calls. If \<open>max_retries\<close> is at most 1024 and the next \<open>max_retries\<close>
  check calls all answer 202, it raises \<^verbatim>\<open>MaxRetriesExceeded\<close> after exactly
  \<open>max_retries\<close> check calls. \<open>max_retries\<close> left out is 3 for
  \<^verbatim>\<open>get_analysis\<close> and 15 for \<^verbatim>\<open>scan_file\<close>, \<^verbatim>\<open>scan_url\<close> and \<^verbatim>\<open>scan_owa\<close>.
\<close>

theorem get_analysis_poll_outcomes:
  assumes "sleep_raises w est = None" and "rnd_ok w" and "sleep_ok w"
  shows "(3 \<le> m \<and> pending w aid (count_checks (events s))
            \<and> pending w aid (count_checks (events s) + 1)
            \<and> check w aid (count_checks (events s) + 2) = Inr r \<and> status r = 200
          \<longrightarrow> fst (WebClient_get_analysis w aid (Some est) (Some m) s) = Inr r
              \<and> count_checks (events (snd (WebClient_get_analysis w aid (Some est) (Some m) s)))
                  = count_checks (events s) + 3)
       \<and> (m \<le> 1024 \<and> (\<forall>j < nat m. pending w aid (count_checks (events s) + j))
          \<longrightarrow> fst (WebClient_get_analysis w aid (Some est) (Some m) s)
                = Inl (MaxRetriesExceeded
                    ''Max retries exceeded. Please increase the number of retries or the estimated waiting time.'')
              \<and> count_checks (events (snd (WebClient_get_analysis w aid (Some est) (Some m) s)))
                  = count_checks (events s) + nat m)
       \<and> WebClient_get_analysis w aid (Some est) None s
           = WebClient_get_analysis w aid (Some est) (Some 3) s
       \<and> WebClient_scan_file w filename file_content None s
           = WebClient_scan_file w filename file_content (Some 15) s
       \<and> WebClient_scan_url w u None s = WebClient_scan_url w u (Some 15) s
       \<and> WebClient_scan_owa w u token None s = WebClient_scan_owa w u token (Some 15) s"
proof (intro conjI impI)
  assume h: "3 \<le> m \<and> pending w aid (count_checks (events s))
            \<and> pending w aid (count_checks (events s) + 1)
            \<and> check w aid (count_checks (events s) + 2) = Inr r \<and> status r = 200"
  have "\<forall>j<2. pending w aid (count_checks (events s) + j)"
    using h by (auto simp: less_Suc_eq numeral_2_eq_2)
  moreover have "0 + int 2 \<le> m" using h by simp
  ultimately obtain s' where s': "get_analysis_loop w aid est m 0 s = get_analysis_loop w aid est m (0 + int 2) s'"
      "count_checks (events s') = count_checks (events s) + 2"
    using loop_pending_rounds [of 2 w aid s 0 m est] assms by auto
  have "get_analysis_loop w aid est m (0 + int 2) s' = (Inr r, s'\<lparr>events := events s' @ [CheckCall aid]\<rparr>)"
    using h s'(2) by (intro loop_done) simp_all
  with s' have res: "WebClient_get_analysis w aid (Some est) (Some m) s
                  = (Inr r, s'\<lparr>events := events s' @ [CheckCall aid]\<rparr>)"
    by (simp add: get_analysis_unfold)
  show "fst (WebClient_get_analysis w aid (Some est) (Some m) s) = Inr r"
    by (simp add: res)
  show "count_checks (events (snd (WebClient_get_analysis w aid (Some est) (Some m) s)))
          = count_checks (events s) + 3"
    by (simp add: res s'(2))
next
  assume h: "m \<le> 1024 \<and> (\<forall>j < nat m. pending w aid (count_checks (events s) + j))"
  obtain s' where s': "get_analysis_loop w aid est m 0 s = get_analysis_loop w aid est m (int (nat m)) s'"
      "count_checks (events s') = count_checks (events s) + nat m"
  proof (cases "0 \<le> m")
    case True
    then have "0 + int (nat m) \<le> m" "0 + int (nat m) \<le> 1024" using h by simp_all
    then show ?thesis
      using loop_pending_rounds [of "nat m" w aid s 0 m est] assms h that by auto
  next
    case False
    then show ?thesis using that [of s] by simp
  qed
  have "\<not> int (nat m) < m" by simp
  then have "get_analysis_loop w aid est m (int (nat m)) s'
      = (Inl (MaxRetriesExceeded
           ''Max retries exceeded. Please increase the number of retries or the estimated waiting time.''), s')"
    by (rule loop_exhausted)
  with s' have res: "WebClient_get_analysis w aid (Some est) (Some m) s
      = (Inl (MaxRetriesExceeded
           ''Max retries exceeded. Please increase the number of retries or the estimated waiting time.''), s')"
    by (simp add: get_analysis_unfold)
  show "fst (WebClient_get_analysis w aid (Some est) (Some m) s)
          = Inl (MaxRetriesExceeded
              ''Max retries exceeded. Please increase the number of retries or the estimated waiting time.'')"
    by (simp add: res)
  show "count_checks (events (snd (WebClient_get_analysis w aid (Some est) (Some m) s)))
          = count_checks (events s) + nat m"
    by (simp add: res s'(2))
qed (simp_all add: WebClient_get_analysis_def WebClient_scan_file_def WebClient_scan_url_def
       WebClient_scan_owa_def scan_default_max_retries_def)

theorem get_analysis_poll_outcomes_witness:
  "fst (WebClient_get_analysis (example_world [202, 202, 200] (example_envelope 200 PNone))
          (PStr ''X'') (Some 5) (Some 3) init_state)
     = Inr (example_envelope 200 (PDict [(''ID'', PStr ''X'')]))
   \<and> count_checks (events (snd (WebClient_get_analysis
          (example_world [202, 202, 200] (example_envelope 200 PNone))
          (PStr ''X'') (Some 5) (Some 3) init_state))) = 3
   \<and> fst (WebClient_get_analysis (example_world [202, 202, 202, 202] (example_envelope 200 PNone))
          (PStr ''X'') (Some 5) (Some 4) init_state)
     = Inl (MaxRetriesExceeded
         ''Max retries exceeded. Please increase the number of retries or the estimated waiting time.'')
   \<and> count_checks (events (snd (WebClient_get_analysis
          (example_world [202, 202, 202, 202] (example_envelope 200 PNone))
          (PStr ''X'') (Some 5) (Some 4) init_state))) = 4"
proof -
  let ?w1 = "example_world [202, 202, 200] (example_envelope 200 PNone)"
  let ?w2 = "example_world [202, 202, 202, 202] (example_envelope 200 PNone)"
  let ?r = "example_envelope 200 (PDict [(''ID'', PStr ''X'')])"
  have c0: "count_checks (events init_state) = 0"
    by (simp add: init_state_def)
  have h1: "(3::int) \<le> 3 \<and> pending ?w1 (PStr ''X'') (count_checks (events init_state))
            \<and> pending ?w1 (PStr ''X'') (count_checks (events init_state) + 1)
            \<and> check ?w1 (PStr ''X'') (count_checks (events init_state) + 2) = Inr ?r
            \<and> status ?r = 200"
    by (simp add: c0 example_world_pending) (simp add: example_world_def example_envelope_def)
  have h2: "(4::int) \<le> 1024
            \<and> (\<forall>j < nat 4. pending ?w2 (PStr ''X'') (count_checks (events init_state) + j))"
    by (simp add: c0 example_world_pending nth_Cons')
  note ok1 = example_world_ok [of "[202, 202, 200]" "example_envelope 200 PNone"]
  note ok2 = example_world_ok [of "[202, 202, 202, 202]" "example_envelope 200 PNone"]
  from get_analysis_poll_outcomes [OF ok1(3) ok1(1) ok1(2), of 3 "PStr ''X''" init_state ?r] h1
  have a: "fst (WebClient_get_analysis ?w1 (PStr ''X'') (Some 5) (Some 3) init_state) = Inr ?r"
      "count_checks (events (snd (WebClient_get_analysis ?w1 (PStr ''X'') (Some 5) (Some 3) init_state)))
         = count_checks (events init_state) + 3"
    by blast+
  from get_analysis_poll_outcomes [OF ok2(3) ok2(1) ok2(2), of 4 "PStr ''X''" init_state] h2
  have b: "fst (WebClient_get_analysis ?w2 (PStr ''X'') (Some 5) (Some 4) init_state)
       = Inl (MaxRetriesExceeded
           ''Max retries exceeded. Please increase the number of retries or the estimated waiting time.'')"
      "count_checks (events (snd (WebClient_get_analysis ?w2 (PStr ''X'') (Some 5) (Some 4) init_state)))
         = count_checks (events init_state) + nat 4"
    by blast+
  show ?thesis
    using a b by (simp add: c0)
qed

text \<open>
  With \<open>max_retries\<close> 1025 and 1025 answers of 202 the loop does not reach
  \<^verbatim>\<open>MaxRetriesExceeded\<close>: after the 1025th check call, \<^verbatim>\<open>_wait(1024)\<close>
  raises \<^verbatim>\<open>OverflowError\<close> at \<^verbatim>\<open>0.1 * 2**1024\<close>.
\<close>

theorem max_retries_1025_counterexample:
  "fst (WebClient_get_analysis (example_world (replicate 1025 202) (example_envelope 200 PNone))
          (PStr ''X'') (Some 5) (Some 1025) init_state) = Inl OverflowError
   \<and> count_checks (events (snd (WebClient_get_analysis
          (example_world (replicate 1025 202) (example_envelope 200 PNone))
          (PStr ''X'') (Some 5) (Some 1025) init_state))) = 1025"
proof -
  let ?w = "example_world (replicate 1025 202) (example_envelope 200 PNone)"
  let ?aid = "PStr ''X''"
  have p: "pending ?w ?aid j" if "j < 1025" for j
    using that by (simp add: example_world_pending)
  have "\<forall>j<1024. pending ?w ?aid (count_checks (events init_state) + j)"
    by (simp add: init_state_def p)
  then obtain s' where s': "get_analysis_loop ?w ?aid 5 1025 0 init_state
        = get_analysis_loop ?w ?aid 5 1025 (0 + int 1024) s'"
      "count_checks (events s') = count_checks (events init_state) + 1024"
    using loop_pending_rounds [of 1024 ?w ?aid init_state 0 1025 5] example_world_ok [of "replicate 1025 202"]
    by auto
  have c: "count_checks (events s') = 1024"
    using s'(2) by (simp add: init_state_def)
  have "pending ?w ?aid (count_checks (events s'))"
    by (simp add: c p)
  then obtain r where r: "check ?w ?aid (count_checks (events s')) = Inr r" "status r = 202"
    by (auto simp: pending_def split: sum.splits)
  have "get_analysis_loop ?w ?aid 5 1025 (0 + int 1024) s'
      = (Inl OverflowError, s'\<lparr>events := events s' @ [CheckCall ?aid]\<rparr>)"
    using loop_pending [of "0 + int 1024" 1025 ?w ?aid s' r 5] r
    by (simp add: wait_overflow)
  with s'(1) have "WebClient_get_analysis ?w ?aid (Some 5) (Some 1025) init_state
      = (Inl OverflowError, s'\<lparr>events := events s' @ [CheckCall ?aid]\<rparr>)"
    by (simp add: get_analysis_unfold)
  then show ?thesis by (simp add: c)
qed

text \<open>
  C2. Let \<^verbatim>\<open>time.sleep\<close> accept the estimated time (where a wait takes
  place at all) and every length up to 40 seconds, and the random values lie in
  \<open>[0, 1)\<close>. If the first \<open>k\<close> check
  calls answer 202 and the next check call is made (it is within the retry
  budget, and no wait before it has reached attempt 1024) and answers \<open>r\<close>:
  with status 429, \<^verbatim>\<open>get_analysis\<close> raises \<^verbatim>\<open>RateLimitExceeded\<close>; with a
  status other than 200, 202 and 429 it raises \<^verbatim>\<open>InlyseApiError\<close> whose
  argument is the content of \<open>r\<close>. In both cases that check call is the last
  event: \<open>k + 1\<close> check calls were made, and nothing follows.
\<close>

theorem poll_loop_terminal_errors:
  assumes "0 < k \<longrightarrow> sleep_raises w est = None" and "rnd_ok w" and "sleep_ok w"
    and "\<forall>j<k. pending w aid (count_checks (events s) + j)"
    and "int k < m" and "k \<le> 1024"
    and "check w aid (count_checks (events s) + k) = Inr r"
  shows "(status r = 429 \<longrightarrow>
            fst (WebClient_get_analysis w aid (Some est) (Some m) s)
              = Inl (RateLimitExceeded ''Your rate limte exceeded.''))
       \<and> (status r \<noteq> 200 \<and> status r \<noteq> 202 \<and> status r \<noteq> 429 \<longrightarrow>
            fst (WebClient_get_analysis w aid (Some est) (Some m) s)
              = Inl (InlyseApiError [content r] None))
       \<and> (status r \<noteq> 200 \<and> status r \<noteq> 202 \<longrightarrow>
            count_checks (events (snd (WebClient_get_analysis w aid (Some est) (Some m) s)))
              = count_checks (events s) + k + 1
          \<and> last (events (snd (WebClient_get_analysis w aid (Some est) (Some m) s))) = CheckCall aid)"
proof -
  have le: "0 + int k \<le> m" "0 + int k \<le> 1024" using assms(5,6) by simp_all
  obtain s' where s': "get_analysis_loop w aid est m 0 s = get_analysis_loop w aid est m (0 + int k) s'"
      "count_checks (events s') = count_checks (events s) + k"
  proof (cases "k = 0")
    case True
    then show ?thesis using that [of s] by simp
  next
    case False
    then have "sleep_raises w est = None" using assms(1) by simp
    then show ?thesis
      using loop_pending_rounds [of k w aid s 0 m est] assms(2,3,4) le that by auto
  qed
  have lt: "0 + int k < m" using assms(5) by simp
  have chk: "check w aid (count_checks (events s')) = Inr r"
    using assms(7) s'(2) by simp
  have rl: "status r = 429 \<Longrightarrow> WebClient_get_analysis w aid (Some est) (Some m) s
      = (Inl (RateLimitExceeded ''Your rate limte exceeded.''), s'\<lparr>events := events s' @ [CheckCall aid]\<rparr>)"
    using loop_rate_limited [OF lt chk, of est] s'(1) by (simp add: get_analysis_unfold)
  have ae: "status r \<noteq> 200 \<Longrightarrow> status r \<noteq> 202 \<Longrightarrow> status r \<noteq> 429 \<Longrightarrow>
      WebClient_get_analysis w aid (Some est) (Some m) s
      = (Inl (InlyseApiError [content r] None), s'\<lparr>events := events s' @ [CheckCall aid]\<rparr>)"
    using loop_api_error [OF lt chk, of est] s'(1) by (simp add: get_analysis_unfold)
  have st: "status r \<noteq> 200 \<Longrightarrow> status r \<noteq> 202 \<Longrightarrow>
      snd (WebClient_get_analysis w aid (Some est) (Some m) s) = s'\<lparr>events := events s' @ [CheckCall aid]\<rparr>"
    using rl ae by (cases "status r = 429") simp_all
  show ?thesis
    using rl ae st s'(2) by simp
qed

theorem poll_loop_terminal_errors_witness:
  "fst (WebClient_get_analysis (example_world [202, 429] (example_envelope 200 PNone))
          (PStr ''X'') (Some 5) (Some 3) init_state)
     = Inl (RateLimitExceeded ''Your rate limte exceeded.'')
   \<and> count_checks (events (snd (WebClient_get_analysis
          (example_world [202, 429] (example_envelope 200 PNone))
          (PStr ''X'') (Some 5) (Some 3) init_state))) = 2
   \<and> fst (WebClient_get_analysis (example_world [202, 404] (example_envelope 200 PNone))
          (PStr ''X'') (Some 5) (Some 3) init_state)
     = Inl (InlyseApiError [PDict [(''ID'', PStr ''X'')]] None)
   \<and> count_checks (events (snd (WebClient_get_analysis
          (example_world [202, 404] (example_envelope 200 PNone))
          (PStr ''X'') (Some 5) (Some 3) init_state))) = 2"
proof -
  let ?w1 = "example_world [202, 429] (example_envelope 200 PNone)"
  let ?w2 = "example_world [202, 404] (example_envelope 200 PNone)"
  let ?r1 = "example_envelope 429 (PDict [(''ID'', PStr ''X'')])"
  let ?r2 = "example_envelope 404 (PDict [(''ID'', PStr ''X'')])"
  have c0: "count_checks (events init_state) = 0"
    by (simp add: init_state_def)
  note ok1 = example_world_ok [of "[202, 429]" "example_envelope 200 PNone"]
  note ok2 = example_world_ok [of "[202, 404]" "example_envelope 200 PNone"]
  have p1: "\<forall>j<1. pending ?w1 (PStr ''X'') (count_checks (events init_state) + j)"
    by (simp add: c0 example_world_pending)
  have p2: "\<forall>j<1. pending ?w2 (PStr ''X'') (count_checks (events init_state) + j)"
    by (simp add: c0 example_world_pending)
  have k1: "check ?w1 (PStr ''X'') (count_checks (events init_state) + 1) = Inr ?r1"
    by (simp add: c0 example_world_def)
  have k2: "check ?w2 (PStr ''X'') (count_checks (events init_state) + 1) = Inr ?r2"
    by (simp add: c0 example_world_def)
  have st: "status ?r1 = 429" "status ?r2 = 404" "content ?r2 = PDict [(''ID'', PStr ''X'')]"
    by (simp_all add: example_envelope_def)
  note t1 = poll_loop_terminal_errors [OF _ ok1(1) ok1(2) p1 _ _ k1, of 5 3]
  note t2 = poll_loop_terminal_errors [OF _ ok2(1) ok2(2) p2 _ _ k2, of 5 3]
  show ?thesis
    using t1 t2 st ok1(3) ok2(3) by (simp add: c0)
qed

text \<open>
  C4, as it holds. In every execution of \<^verbatim>\<open>get_analysis\<close> with
  \<open>max_retries\<close> above 0 the first action is a check call. If that call answers
  202 and \<^verbatim>\<open>time.sleep\<close> accepts the estimated time, the sleep of the full
  estimated time follows it directly, before the backoff and before any other
  check call; if it answers 202 and \<^verbatim>\<open>time.sleep\<close> refuses the estimated
  time, or if it answers anything else, or raises, nothing follows it: there is
  no courtesy wait.
\<close>

theorem courtesy_wait_follows_first_check:
  assumes "0 < m"
  shows "\<exists>rest. events (snd (WebClient_get_analysis w aid (Some est) (Some m) s))
                  = events s @ CheckCall aid # rest
           \<and> (pending w aid (count_checks (events s)) \<and> sleep_raises w est = None
                \<longrightarrow> (\<exists>rest'. rest = Sleep est # rest'))
           \<and> (pending w aid (count_checks (events s)) \<and> sleep_raises w est \<noteq> None
                \<longrightarrow> rest = [])
           \<and> (\<not> pending w aid (count_checks (events s)) \<longrightarrow> rest = [])"
proof (cases "pending w aid (count_checks (events s))")
  case False
  let ?s1 = "s\<lparr>events := events s @ [CheckCall aid]\<rparr>"
  have "snd (get_analysis_loop w aid est m 0 s) = ?s1"
  proof (cases "check w aid (count_checks (events s))")
    case (Inl e)
    with assms show ?thesis by (simp add: loop_raises)
  next
    case (Inr resp)
    with False have "status resp \<noteq> 202" by (simp add: pending_def)
    with assms Inr show ?thesis
      by (cases "status resp = 200"; cases "status resp = 429")
         (simp_all add: loop_done loop_rate_limited loop_api_error)
  qed
  with False show ?thesis by (simp add: get_analysis_unfold)
next
  case True
  then obtain resp where resp: "check w aid (count_checks (events s)) = Inr resp" "status resp = 202"
    by (auto simp: pending_def split: sum.splits)
  let ?s1 = "s\<lparr>events := events s @ [CheckCall aid]\<rparr>"
  have step: "get_analysis_loop w aid est m 0 s =
     (case WebClient_wait w 0 est wait_default_cap wait_default_base ?s1 of
        (Inl e, s2) \<Rightarrow> (Inl e, s2)
      | (Inr _, s2) \<Rightarrow> get_analysis_loop w aid est m (0 + 1) s2)"
    using assms resp by (rule loop_pending)
  show ?thesis
  proof (cases "sleep_raises w est")
    case (Some e)
    then have "WebClient_wait w 0 est wait_default_cap wait_default_base ?s1 = (Inl e, ?s1)"
      by (simp add: WebClient_wait_def time_sleep_def)
    with step have "get_analysis_loop w aid est m 0 s = (Inl e, ?s1)"
      by simp
    with True Some show ?thesis
      by (simp add: get_analysis_unfold)
  next
    case None
    obtain x s2 where w: "WebClient_wait w 0 est wait_default_cap wait_default_base ?s1 = (x, s2)"
      by (cases "WebClient_wait w 0 est wait_default_cap wait_default_base ?s1") auto
    have "\<exists>evs. events s2 = events s @ CheckCall aid # Sleep est # evs"
      using w None
      by (auto simp: WebClient_wait_def time_sleep_def random_uniform_def random_random_def
               split: sum.splits option.splits number.splits)
    then obtain evs where evs: "events s2 = events s @ CheckCall aid # Sleep est # evs"
      by blast
    obtain more where more: "events (snd (get_analysis_loop w aid est m 0 s)) = events s2 @ more"
    proof (cases x)
      case (Inl e)
      with step w that [of "[]"] show ?thesis by simp
    next
      case (Inr y)
      with step w loop_events [of w aid est m "0 + 1" s2] that show ?thesis by auto
    qed
    have "events (snd (get_analysis_loop w aid est m 0 s))
        = events s @ CheckCall aid # Sleep est # (evs @ more)"
      using more evs by simp
    with True None show ?thesis
      by (simp add: get_analysis_unfold)
  qed
qed

theorem courtesy_wait_follows_first_check_witness:
  "(0::int) < 3
   \<and> pending (example_world [202, 200] (example_envelope 200 PNone)) (PStr ''X'')
        (count_checks (events init_state))
   \<and> sleep_raises (example_world [202, 200] (example_envelope 200 PNone)) 5 = None
   \<and> (\<exists>rest'. events (snd (WebClient_get_analysis
          (example_world [202, 200] (example_envelope 200 PNone))
          (PStr ''X'') (Some 5) (Some 3) init_state))
        = CheckCall (PStr ''X'') # Sleep 5 # rest')"
proof -
  let ?w = "example_world [202, 200] (example_envelope 200 PNone)"
  have c0: "count_checks (events init_state) = 0" "events init_state = []"
    by (simp_all add: init_state_def)
  have p: "pending ?w (PStr ''X'') (count_checks (events init_state))"
    by (simp add: c0 example_world_pending)
  have sl: "sleep_raises ?w 5 = None"
    by (rule example_world_ok)
  have "(0::int) < 3" by simp
  from courtesy_wait_follows_first_check [OF this, of ?w "PStr ''X''" 5 init_state] p sl
  have "\<exists>rest'. events (snd (WebClient_get_analysis ?w (PStr ''X'') (Some 5) (Some 3) init_state))
        = events init_state @ CheckCall (PStr ''X'') # Sleep 5 # rest'"
    by auto
  with p sl show ?thesis by (simp add: c0)
qed

text \<open>
  The order the specification states, the courtesy wait before the first check
  call, fails where the first check call answers 202: the trace begins with the
  check call.
\<close>

theorem courtesy_wait_first_counterexample:
  "\<not> courtesy_wait_first 5
       (events (snd (WebClient_get_analysis (example_world [202, 200] (example_envelope 200 PNone))
          (PStr ''X'') (Some 5) (Some 3) init_state)))"
proof -
  let ?w = "example_world [202, 200] (example_envelope 200 PNone)"
  have "(0::int) < 3" by simp
  from first_event_is_check [OF this, of ?w "PStr ''X''" 5 init_state]
  obtain rest where "events (snd (WebClient_get_analysis ?w (PStr ''X'') (Some 5) (Some 3) init_state))
          = CheckCall (PStr ''X'') # rest"
    by (auto simp: init_state_def get_analysis_unfold)
  then show ?thesis
    by (simp add: courtesy_wait_first_def)
qed

section \<open>The backoff\<close>

text \<open>
  C7. With the random value in \<open>[0, 1)\<close>, every backoff \<^verbatim>\<open>_wait\<close> returns
  with its default cap and base, for whatever attempt number, lies in
  \<open>[0, min 40 (0.1 * 2 ^ attempt)]\<close> and was slept; on attempt 0 the full
  estimated time was slept before it, on every other attempt it was not.
  \<^verbatim>\<open>_wait\<close> does return a backoff for the attempts 0 to 1023 when
  \<^verbatim>\<open>time.sleep\<close> accepts the lengths; from attempt 1024 on (stated up to
  \<open>2 ^ 20\<close>) it raises \<^verbatim>\<open>OverflowError\<close> and computes no backoff.
\<close>

theorem wait_backoff_bounds:
  assumes "0 \<le> rnd w (rng s)" and "rnd w (rng s) < 1"
  shows "(WebClient_wait w attempt avg_time wait_default_cap wait_default_base s = (Inr b, s')
           \<longrightarrow> 0 \<le> b \<and> b \<le> min 40 (1 / 10 * 2 powi attempt)
             \<and> events s' = events s @ (if attempt = 0 then [Sleep avg_time, Sleep b] else [Sleep b]))
       \<and> (0 \<le> attempt \<and> attempt < 1024 \<and> sleep_ok w
            \<and> (attempt = 0 \<longrightarrow> sleep_raises w avg_time = None)
           \<longrightarrow> (\<exists>b' s''. WebClient_wait w attempt avg_time wait_default_cap wait_default_base s
                            = (Inr b', s'')))
       \<and> (1024 \<le> attempt \<and> attempt \<le> 2 ^ 20
           \<longrightarrow> WebClient_wait w attempt avg_time wait_default_cap wait_default_base s
                 = (Inl OverflowError, s))"
proof (intro conjI impI)
  assume r: "WebClient_wait w attempt avg_time wait_default_cap wait_default_base s = (Inr b, s')"
  define m :: real where "m = min 40 (1 / 10 * 2 powi attempt)"
  have v: "b = m * rnd w (rng s)"
      "events s' = events s @ (if attempt = 0 then [Sleep avg_time, Sleep b] else [Sleep b])"
    using wait_value [OF r] by (simp_all add: m_def)
  have m0: "0 \<le> m" by (simp add: m_def)
  show "0 \<le> b" using m0 assms(1) v(1) by simp
  have "m * rnd w (rng s) \<le> m * 1"
    using m0 assms(2) by (intro mult_left_mono) simp_all
  then show "b \<le> min 40 (1 / 10 * 2 powi attempt)"
    using v(1) by (simp add: m_def)
  show "events s' = events s @ (if attempt = 0 then [Sleep avg_time, Sleep b] else [Sleep b])"
    by (rule v(2))
next
  assume h: "0 \<le> attempt \<and> attempt < 1024 \<and> sleep_ok w
            \<and> (attempt = 0 \<longrightarrow> sleep_raises w avg_time = None)"
  then show "\<exists>b' s''. WebClient_wait w attempt avg_time wait_default_cap wait_default_base s
                            = (Inr b', s'')"
    using wait_returns [OF assms, of attempt avg_time] by blast
next
  assume "1024 \<le> attempt \<and> attempt \<le> 2 ^ 20"
  then show "WebClient_wait w attempt avg_time wait_default_cap wait_default_base s
                 = (Inl OverflowError, s)"
    by (simp add: wait_overflow)
qed

theorem wait_backoff_bounds_witness:
  "WebClient_wait (example_world [202] (example_envelope 200 PNone)) 0 5
             wait_default_cap wait_default_base init_state
     = (Inr (1 / 20), \<lparr>events = [Sleep 5, Sleep (1 / 20)], rng = 1\<rparr>)
   \<and> (0::real) \<le> 1 / 20 \<and> (1::real) / 20 \<le> min 40 (1 / 10 * 2 powi 0)
   \<and> WebClient_wait (example_world [202] (example_envelope 200 PNone)) 1024 5
             wait_default_cap wait_default_base init_state
     = (Inl OverflowError, init_state)"
proof -
  let ?w = "example_world [202] (example_envelope 200 PNone)"
  note ok = example_world_ok [of "[202]" "example_envelope 200 PNone"]
  have r: "0 \<le> rnd ?w (rng init_state)" "rnd ?w (rng init_state) < 1"
    using ok(1) by (simp_all add: rnd_ok_def)
  have v: "WebClient_wait ?w 0 5 wait_default_cap wait_default_base init_state
     = (Inr (1 / 20), \<lparr>events = [Sleep 5, Sleep (1 / 20)], rng = 1\<rparr>)"
    using wait_returns [OF r ok(2), of 0 5] ok(3)
    by (simp add: init_state_def example_world_def)
  note t = wait_backoff_bounds [OF r, of 0 5 "1 / 20" "\<lparr>events = [Sleep 5, Sleep (1 / 20)], rng = 1\<rparr>"]
  note t' = wait_backoff_bounds [OF r, of 1024 5]
  from t v have "(0::real) \<le> 1 / 20 \<and> (1::real) / 20 \<le> min 40 (1 / 10 * 2 powi 0)"
    by blast
  moreover from t' have "WebClient_wait ?w 1024 5 wait_default_cap wait_default_base init_state
     = (Inl OverflowError, init_state)"
    by simp
  ultimately show ?thesis using v by blast
qed

section \<open>The submit step\<close>

text \<open>
  C3. For every upload response of \<^verbatim>\<open>_upload\<close> (called by \<^verbatim>\<open>scan_file\<close>,
  \<^verbatim>\<open>scan_url\<close> and \<^verbatim>\<open>scan_owa\<close> with the upload types \<open>file\<close>, \<open>url\<close> and
  \<open>owa\<close>): with status 429 it raises \<^verbatim>\<open>RateLimitExceeded\<close>; with any other
  status outside \<open>[200, 299]\<close> it raises \<^verbatim>\<open>InlyseApiError\<close> whose argument is
  the content of the response; otherwise, the body being a JSON object that
  holds \<open>id\<close> and under \<open>EstimatedAnalysisTime\<close> a number that converts to a
  float, it is exactly the poll loop for that \<open>id\<close> with the estimated time
  \<open>EstimatedAnalysisTime * 0.2\<close> and the given \<open>max_retries\<close>.
\<close>

theorem upload_submit_step:
  assumes "upload_methods w upload_type = Some method" and "method kw = Inr response"
  shows "(status response = 429 \<longrightarrow>
            WebClient_upload w upload_type max_retries kw s
              = (Inl (RateLimitExceeded ''Your rate limte exceeded.''),
                 s\<lparr>events := events s @ [UploadCall upload_type]\<rparr>))
       \<and> (status response \<noteq> 429 \<and> (status response < 200 \<or> 299 < status response) \<longrightarrow>
            WebClient_upload w upload_type max_retries kw s
              = (Inl (InlyseApiError [content response] None),
                 s\<lparr>events := events s @ [UploadCall upload_type]\<rparr>))
       \<and> (200 \<le> status response \<and> status response \<le> 299
            \<and> content response = PDict d
            \<and> map_of d ''id'' = Some analysis_id
            \<and> map_of d ''EstimatedAnalysisTime'' = Some t \<and> py_float t = Inr x \<longrightarrow>
            WebClient_upload w upload_type max_retries kw s
              = WebClient_get_analysis w analysis_id (Some (x * (2 / 10))) (Some max_retries)
                  (s\<lparr>events := events s @ [UploadCall upload_type]\<rparr>))
       \<and> upload_methods w ''file'' = Some (upload_file w)
       \<and> upload_methods w ''url'' = Some (upload_url w)
       \<and> upload_methods w ''owa'' = Some (upload_owa w)"
  using assms
  by (simp add: WebClient_upload_def Let_def py_getitem_def py_mul_float_def upload_methods_def)

theorem upload_submit_step_witness:
  "WebClient_scan_file
      (example_world [202, 200]
         (example_upload 200 (PDict [(''id'', PStr ''X''), (''EstimatedAnalysisTime'', PFloat 5)])))
      ''a.pdf'' ''%PDF'' None init_state
    = WebClient_get_analysis
      (example_world [202, 200]
         (example_upload 200 (PDict [(''id'', PStr ''X''), (''EstimatedAnalysisTime'', PFloat 5)])))
      (PStr ''X'') (Some 1) (Some 15) \<lparr>events = [UploadCall ''file''], rng = 0\<rparr>
   \<and> fst (WebClient_scan_url (example_world [] (example_upload 429 (PStr ''quota'')))
          ''https://inlyse.com/test.pdf'' None init_state)
    = Inl (RateLimitExceeded ''Your rate limte exceeded.'')
   \<and> fst (WebClient_scan_url (example_world [] (example_upload 404 (PStr ''not found'')))
          ''https://inlyse.com/test.pdf'' None init_state)
    = Inl (InlyseApiError [PStr ''not found''] None)"
  using upload_submit_step [where w = "example_world [202, 200]
            (example_upload 200 (PDict [(''id'', PStr ''X''), (''EstimatedAnalysisTime'', PFloat 5)]))"
          and upload_type = "''file''"
          and kw = "[(''filename'', PStr ''a.pdf''), (''content'', PBytes ''%PDF'')]"
          and response = "example_upload 200 (PDict [(''id'', PStr ''X''), (''EstimatedAnalysisTime'', PFloat 5)])"
          and max_retries = 15 and s = init_state
          and d = "[(''id'', PStr ''X''), (''EstimatedAnalysisTime'', PFloat 5)]"
          and analysis_id = "PStr ''X''" and t = "PFloat 5" and x = 5]
        upload_submit_step [where w = "example_world [] (example_upload 429 (PStr ''quota''))"
          and upload_type = "''url''"
          and kw = "[(''url'', PStr ''https://inlyse.com/test.pdf'')]"
          and response = "example_upload 429 (PStr ''quota'')"
          and max_retries = 15 and s = init_state]
        upload_submit_step [where w = "example_world [] (example_upload 404 (PStr ''not found''))"
          and upload_type = "''url''"
          and kw = "[(''url'', PStr ''https://inlyse.com/test.pdf'')]"
          and response = "example_upload 404 (PStr ''not found'')"
          and max_retries = 15 and s = init_state]
  by (simp add: WebClient_scan_file_def WebClient_scan_url_def scan_default_max_retries_def
        upload_methods_def example_world_def example_upload_def init_state_def py_float_def)

text \<open>
  C10, as it holds. For every upload response with a status in \<open>[200, 299]\<close>
  whose body is a JSON object: if the key \<open>EstimatedAnalysisTime\<close> is missing,
  \<^verbatim>\<open>_upload\<close> raises \<^verbatim>\<open>KeyError\<close> for it; if it holds a value that
  converts to a float (a float, a bool, or an int below \<open>2 ^ 1024 - 2 ^ 970\<close>
  in magnitude) and the key \<open>id\<close> is missing, \<^verbatim>\<open>_upload\<close> raises
  \<^verbatim>\<open>KeyError\<close> for \<open>id\<close>; if it holds a string, null, an array or an
  object, the multiplication raises \<^verbatim>\<open>TypeError\<close>, and if it holds an int of
  that magnitude or more, \<^verbatim>\<open>OverflowError\<close>, in both cases before \<open>id\<close> is
  looked up. In each case no check call is made and the error is none of the
  three the client documents. The exception is a value of the embedding, which
  is total.
\<close>

theorem upload_missing_keys:
  assumes "upload_methods w upload_type = Some method" and "method kw = Inr response"
    and "200 \<le> status response" and "status response \<le> 299"
    and "content response = PDict d"
  shows "(map_of d ''EstimatedAnalysisTime'' = None \<longrightarrow>
            WebClient_upload w upload_type max_retries kw s
              = (Inl (KeyError ''EstimatedAnalysisTime''),
                 s\<lparr>events := events s @ [UploadCall upload_type]\<rparr>))
       \<and> (map_of d ''EstimatedAnalysisTime'' = Some t \<and> py_float t = Inr x
            \<and> map_of d ''id'' = None \<longrightarrow>
            WebClient_upload w upload_type max_retries kw s
              = (Inl (KeyError ''id''), s\<lparr>events := events s @ [UploadCall upload_type]\<rparr>))
       \<and> (map_of d ''EstimatedAnalysisTime'' = Some t \<and> \<not> py_is_number t \<longrightarrow>
            WebClient_upload w upload_type max_retries kw s
              = (Inl TypeError, s\<lparr>events := events s @ [UploadCall upload_type]\<rparr>))
       \<and> (map_of d ''EstimatedAnalysisTime'' = Some (PInt n) \<and> 2 ^ 1024 - 2 ^ 970 \<le> \<bar>n\<bar> \<longrightarrow>
            WebClient_upload w upload_type max_retries kw s
              = (Inl OverflowError, s\<lparr>events := events s @ [UploadCall upload_type]\<rparr>))
       \<and> (py_float t = Inr x \<longleftrightarrow>
            t = PFloat x \<or> (\<exists>b. t = PBool b \<and> x = (if b then 1 else 0))
            \<or> (\<exists>i. t = PInt i \<and> \<bar>i\<bar> < 2 ^ 1024 - 2 ^ 970 \<and> x = of_int i))"
proof (intro conjI impI)
  show "py_float t = Inr x \<longleftrightarrow>
            t = PFloat x \<or> (\<exists>b. t = PBool b \<and> x = (if b then 1 else 0))
            \<or> (\<exists>i. t = PInt i \<and> \<bar>i\<bar> < 2 ^ 1024 - 2 ^ 970 \<and> x = of_int i)"
    by (cases t) (auto simp: py_float_def py_float_of_int_def)
next
  assume "map_of d ''EstimatedAnalysisTime'' = Some t \<and> \<not> py_is_number t"
  then have "map_of d ''EstimatedAnalysisTime'' = Some t" "py_float t = Inl TypeError"
    by (cases t; simp add: py_is_number_def py_float_def)+
  with assms show "WebClient_upload w upload_type max_retries kw s
              = (Inl TypeError, s\<lparr>events := events s @ [UploadCall upload_type]\<rparr>)"
    by (simp add: WebClient_upload_def Let_def py_getitem_def py_mul_float_def)
next
  assume "map_of d ''EstimatedAnalysisTime'' = None"
  with assms show "WebClient_upload w upload_type max_retries kw s
              = (Inl (KeyError ''EstimatedAnalysisTime''),
                 s\<lparr>events := events s @ [UploadCall upload_type]\<rparr>)"
    by (simp add: WebClient_upload_def Let_def py_getitem_def)
next
  assume "map_of d ''EstimatedAnalysisTime'' = Some t \<and> py_float t = Inr x
            \<and> map_of d ''id'' = None"
  with assms show "WebClient_upload w upload_type max_retries kw s
              = (Inl (KeyError ''id''), s\<lparr>events := events s @ [UploadCall upload_type]\<rparr>)"
    by (simp add: WebClient_upload_def Let_def py_getitem_def py_mul_float_def)
next
  assume "map_of d ''EstimatedAnalysisTime'' = Some (PInt n) \<and> 2 ^ 1024 - 2 ^ 970 \<le> \<bar>n\<bar>"
  then have "map_of d ''EstimatedAnalysisTime'' = Some (PInt n)"
      "py_float (PInt n) = Inl OverflowError"
    by (simp_all add: py_float_def py_float_of_int_def)
  with assms show "WebClient_upload w upload_type max_retries kw s
              = (Inl OverflowError, s\<lparr>events := events s @ [UploadCall upload_type]\<rparr>)"
    by (simp add: WebClient_upload_def Let_def py_getitem_def py_mul_float_def)
qed

theorem upload_missing_keys_witness:
  "fst (WebClient_scan_file
      (example_world [200] (example_upload 200 (PDict [(''id'', PStr ''X'')])))
      ''a.pdf'' ''%PDF'' None init_state) = Inl (KeyError ''EstimatedAnalysisTime'')
   \<and> fst (WebClient_scan_file
      (example_world [200] (example_upload 200 (PDict [(''EstimatedAnalysisTime'', PFloat 5)])))
      ''a.pdf'' ''%PDF'' None init_state) = Inl (KeyError ''id'')
   \<and> fst (WebClient_scan_file
      (example_world [200] (example_upload 200
         (PDict [(''id'', PStr ''X''), (''EstimatedAnalysisTime'', PInt example_huge_int)])))
      ''a.pdf'' ''%PDF'' None init_state) = Inl OverflowError"
proof -
  let ?kw = "[(''filename'', PStr ''a.pdf''), (''content'', PBytes ''%PDF'')]"
  let ?d1 = "[(''id'', PStr ''X'')]"
  let ?d2 = "[(''EstimatedAnalysisTime'', PFloat 5)]"
  let ?d3 = "[(''id'', PStr ''X''), (''EstimatedAnalysisTime'', PInt example_huge_int)]"
  have m: "upload_methods (example_world [200] up) ''file'' = Some (\<lambda>kw. Inr up)" for up
    by (simp add: upload_methods_def example_world_def)
  have st: "200 \<le> status (example_upload 200 c)" "status (example_upload 200 c) \<le> 299"
      "content (example_upload 200 c) = c" for c
    by (simp_all add: example_upload_def)
  note t1 = upload_missing_keys [where d = ?d1 and max_retries = 15 and kw = ?kw and s = init_state,
      OF m refl st(1) st(2) st(3)]
  note t2 = upload_missing_keys [where d = ?d2 and t = "PFloat 5" and x = 5 and max_retries = 15
      and kw = ?kw and s = init_state, OF m refl st(1) st(2) st(3)]
  note t3 = upload_missing_keys [where d = ?d3 and n = example_huge_int and max_retries = 15
      and kw = ?kw and s = init_state, OF m refl st(1) st(2) st(3)]
  have a: "fst (WebClient_upload (example_world [200] (example_upload 200 (PDict ?d1))) ''file'' 15 ?kw
             init_state) = Inl (KeyError ''EstimatedAnalysisTime'')"
    using t1 by simp
  have b: "fst (WebClient_upload (example_world [200] (example_upload 200 (PDict ?d2))) ''file'' 15 ?kw
             init_state) = Inl (KeyError ''id'')"
    using t2 by (simp add: py_float_def)
  have c: "fst (WebClient_upload (example_world [200] (example_upload 200 (PDict ?d3))) ''file'' 15 ?kw
             init_state) = Inl OverflowError"
    using t3 example_huge_int_overflows by simp
  show ?thesis
    using a b c by (simp add: WebClient_scan_file_def scan_default_max_retries_def)
qed

text \<open>
  A body without \<open>id\<close> whose \<open>EstimatedAnalysisTime\<close> is a string: the error is
  \<^verbatim>\<open>TypeError\<close>, not \<^verbatim>\<open>KeyError\<close>.
\<close>

theorem upload_missing_id_counterexample:
  "map_of [(''EstimatedAnalysisTime'', PStr ''soon'')] ''id'' = None
   \<and> fst (WebClient_scan_file
      (example_world [200] (example_upload 200 (PDict [(''EstimatedAnalysisTime'', PStr ''soon'')])))
      ''a.pdf'' ''%PDF'' None init_state) = Inl TypeError"
  by (simp add: WebClient_scan_file_def scan_default_max_retries_def WebClient_upload_def Let_def
        py_getitem_def py_mul_float_def py_float_def
        upload_methods_def example_world_def example_upload_def init_state_def)

section \<open>The envelope\<close>

text \<open>
  An envelope carries the snapshot the wrapper computed.
\<close>

lemma endpoint_wrapper_rate_limit:
  "endpoint_wrapper lib self_url path (Inr response) = Inr env \<Longrightarrow>
   endpoint_quota lib response = Inr (rate_limit env)"
  by (auto simp: endpoint_wrapper_def split: sum.splits if_splits)

text \<open>
  C5. Without the header \<open>x-ratelimit-remaining\<close> the snapshot is \<open>None\<close>. With
  the three rate-limit headers and values that parse, the snapshot holds the
  limit and the remaining count parsed as integers and the reset time parsed
  with the format \<open>%d-%m-%Y %H:%M:%S\<close>, with UTC attached. Every envelope
  the wrapper returns has that snapshot: \<open>None\<close> without the header, and with
  it a snapshot whose \<open>remaining\<close> is the header parsed as an integer and
  whose \<open>reset\<close> is the reset header parsed in that format, with UTC attached.
  The wrapper does return that envelope: with the three headers parsing, or
  without \<open>x-ratelimit-remaining\<close>, once the content type is present and the
  content decodes. With \<open>x-ratelimit-remaining\<close> but without
  \<open>x-ratelimit-limit\<close> there is no envelope: the wrapper raises \<^verbatim>\<open>KeyError\<close>.
\<close>

theorem endpoint_rate_limit_snapshot:
  "(headers response ''x-ratelimit-remaining'' = None \<longrightarrow>
      endpoint_quota lib response = Inr None)
   \<and> (headers response ''x-ratelimit-remaining'' = Some v
        \<and> headers response ''x-ratelimit-limit'' = Some l
        \<and> headers response ''x-ratelimit-reset'' = Some t
        \<and> py_int lib l = Inr limit_v \<and> py_int lib v = Inr remaining_v
        \<and> strptime lib t ''%d-%m-%Y %H:%M:%S'' = Inr d \<longrightarrow>
      endpoint_quota lib response
        = Inr (Some \<lparr>limit = limit_v, remaining = remaining_v, reset = d\<lparr>tzinfo := Some UTC\<rparr>\<rparr>))
   \<and> (endpoint_wrapper lib self_url path (Inr response) = Inr env
        \<and> headers response ''x-ratelimit-remaining'' = None \<longrightarrow>
      rate_limit env = None)
   \<and> (endpoint_wrapper lib self_url path (Inr response) = Inr env
        \<and> headers response ''x-ratelimit-remaining'' = Some v \<longrightarrow>
      (\<exists>q t' d'. rate_limit env = Some q
         \<and> py_int lib v = Inr (remaining q)
         \<and> headers response ''x-ratelimit-reset'' = Some t'
         \<and> strptime lib t' ''%d-%m-%Y %H:%M:%S'' = Inr d'
         \<and> reset q = d'\<lparr>tzinfo := Some UTC\<rparr>))
   \<and> (headers response ''x-ratelimit-remaining'' = Some v
        \<and> headers response ''x-ratelimit-limit'' = Some l
        \<and> headers response ''x-ratelimit-reset'' = Some t
        \<and> py_int lib l = Inr limit_v \<and> py_int lib v = Inr remaining_v
        \<and> strptime lib t ''%d-%m-%Y %H:%M:%S'' = Inr d
        \<and> headers response ''content-type'' = Some ct
        \<and> (if fst (parse_content_type_header lib ct) = ''application/json''
            then response_json lib response
            else Inr (PBytes (http_content response))) = Inr c \<longrightarrow>
      endpoint_wrapper lib self_url path (Inr response)
        = Inr \<lparr>endpoint = urljoin lib self_url path, status = status_code response,
               rate_limit = Some \<lparr>limit = limit_v, remaining = remaining_v,
                                  reset = d\<lparr>tzinfo := Some UTC\<rparr>\<rparr>,
               content_type = parse_content_type_header lib ct, content = c\<rparr>)
   \<and> (headers response ''x-ratelimit-remaining'' = None
        \<and> headers response ''content-type'' = Some ct
        \<and> (if fst (parse_content_type_header lib ct) = ''application/json''
            then response_json lib response
            else Inr (PBytes (http_content response))) = Inr c \<longrightarrow>
      endpoint_wrapper lib self_url path (Inr response)
        = Inr \<lparr>endpoint = urljoin lib self_url path, status = status_code response,
               rate_limit = None,
               content_type = parse_content_type_header lib ct, content = c\<rparr>)
   \<and> (headers response ''x-ratelimit-remaining'' = Some v
        \<and> headers response ''x-ratelimit-limit'' = None \<longrightarrow>
      endpoint_wrapper lib self_url path (Inr response) = Inl (KeyError ''x-ratelimit-limit''))"
proof (intro conjI impI)
  show "endpoint_quota lib response = Inr None"
    if "headers response ''x-ratelimit-remaining'' = None"
    using that by (simp add: endpoint_quota_def)
  show "endpoint_quota lib response
        = Inr (Some \<lparr>limit = limit_v, remaining = remaining_v, reset = d\<lparr>tzinfo := Some UTC\<rparr>\<rparr>)"
    if "headers response ''x-ratelimit-remaining'' = Some v
        \<and> headers response ''x-ratelimit-limit'' = Some l
        \<and> headers response ''x-ratelimit-reset'' = Some t
        \<and> py_int lib l = Inr limit_v \<and> py_int lib v = Inr remaining_v
        \<and> strptime lib t ''%d-%m-%Y %H:%M:%S'' = Inr d"
    using that by (simp add: endpoint_quota_def lookup_header_def)
  show "rate_limit env = None"
    if "endpoint_wrapper lib self_url path (Inr response) = Inr env
        \<and> headers response ''x-ratelimit-remaining'' = None"
    using that endpoint_wrapper_rate_limit [of lib self_url path response env]
    by (simp add: endpoint_quota_def)
  show "\<exists>q t' d'. rate_limit env = Some q
         \<and> py_int lib v = Inr (remaining q)
         \<and> headers response ''x-ratelimit-reset'' = Some t'
         \<and> strptime lib t' ''%d-%m-%Y %H:%M:%S'' = Inr d'
         \<and> reset q = d'\<lparr>tzinfo := Some UTC\<rparr>"
    if h: "endpoint_wrapper lib self_url path (Inr response) = Inr env
        \<and> headers response ''x-ratelimit-remaining'' = Some v"
  proof -
    have "endpoint_quota lib response = Inr (rate_limit env)"
      using h endpoint_wrapper_rate_limit [of lib self_url path response env] by simp
    then have "Inr (rate_limit env) = endpoint_quota lib response"
      by simp
    then show ?thesis
      using h
      by (auto simp: endpoint_quota_def lookup_header_def split: sum.splits option.splits)
  qed
  show "endpoint_wrapper lib self_url path (Inr response)
        = Inr \<lparr>endpoint = urljoin lib self_url path, status = status_code response,
               rate_limit = Some \<lparr>limit = limit_v, remaining = remaining_v,
                                  reset = d\<lparr>tzinfo := Some UTC\<rparr>\<rparr>,
               content_type = parse_content_type_header lib ct, content = c\<rparr>"
    if h: "headers response ''x-ratelimit-remaining'' = Some v
        \<and> headers response ''x-ratelimit-limit'' = Some l
        \<and> headers response ''x-ratelimit-reset'' = Some t
        \<and> py_int lib l = Inr limit_v \<and> py_int lib v = Inr remaining_v
        \<and> strptime lib t ''%d-%m-%Y %H:%M:%S'' = Inr d
        \<and> headers response ''content-type'' = Some ct
        \<and> (if fst (parse_content_type_header lib ct) = ''application/json''
            then response_json lib response
            else Inr (PBytes (http_content response))) = Inr c"
  proof -
    have q: "endpoint_quota lib response
        = Inr (Some \<lparr>limit = limit_v, remaining = remaining_v, reset = d\<lparr>tzinfo := Some UTC\<rparr>\<rparr>)"
      using h by (simp add: endpoint_quota_def lookup_header_def)
    show ?thesis
      using h by (simp add: endpoint_wrapper_def q lookup_header_def)
  qed
  show "endpoint_wrapper lib self_url path (Inr response)
        = Inr \<lparr>endpoint = urljoin lib self_url path, status = status_code response,
               rate_limit = None,
               content_type = parse_content_type_header lib ct, content = c\<rparr>"
    if h: "headers response ''x-ratelimit-remaining'' = None
        \<and> headers response ''content-type'' = Some ct
        \<and> (if fst (parse_content_type_header lib ct) = ''application/json''
            then response_json lib response
            else Inr (PBytes (http_content response))) = Inr c"
  proof -
    have q: "endpoint_quota lib response = Inr None"
      using h by (simp add: endpoint_quota_def)
    show ?thesis
      using h by (simp add: endpoint_wrapper_def q lookup_header_def)
  qed
  show "endpoint_wrapper lib self_url path (Inr response) = Inl (KeyError ''x-ratelimit-limit'')"
    if h: "headers response ''x-ratelimit-remaining'' = Some v
        \<and> headers response ''x-ratelimit-limit'' = None"
  proof -
    have q: "endpoint_quota lib response = Inl (KeyError ''x-ratelimit-limit'')"
      using h by (simp add: endpoint_quota_def lookup_header_def)
    show ?thesis
      by (simp add: endpoint_wrapper_def q)
  qed
qed

theorem endpoint_rate_limit_snapshot_witness:
  "endpoint_wrapper example_lib ''https://malware.ai'' ''/api/stats''
      (Inr (example_response example_rate_limit_headers ''[]''))
     = Inr \<lparr>endpoint = ''https://malware.ai/api/stats'', status = 200,
            rate_limit = Some \<lparr>limit = 100, remaining = 99,
              reset = \<lparr>day = 20, month = 3, year = 2023, hour = 22, minute = 16, second = 47,
                       tzinfo = Some UTC\<rparr>\<rparr>,
            content_type = (''application/json'', [(''charset'', ''UTF-8'')]),
            content = PList []\<rparr>
   \<and> endpoint_wrapper example_lib ''https://malware.ai'' ''/api/analysis/{id}/download''
      (Inr (example_response example_pdf_headers ''%PDF-1.7''))
     = Inr \<lparr>endpoint = ''https://malware.ai/api/analysis/{id}/download'', status = 200,
            rate_limit = None,
            content_type = (''application/pdf'', []),
            content = PBytes ''%PDF-1.7''\<rparr>
   \<and> endpoint_wrapper example_lib ''https://malware.ai'' ''/api/stats''
      (Inr (example_response [''content-type'' \<mapsto> ''application/json; charset=UTF-8'',
                              ''x-ratelimit-remaining'' \<mapsto> ''99''] ''[]''))
     = Inl (KeyError ''x-ratelimit-limit'')"
  using endpoint_rate_limit_snapshot [where response = "example_response example_rate_limit_headers ''[]''"
          and lib = example_lib and v = "''99''" and l = "''100''" and t = "''20-03-2023 22:16:47''"
          and limit_v = 100 and remaining_v = 99
          and d = "\<lparr>day = 20, month = 3, year = 2023, hour = 22, minute = 16, second = 47,
                      tzinfo = None\<rparr>"
          and ct = "''application/json; charset=UTF-8''" and c = "PList []"
          and self_url = "''https://malware.ai''" and path = "''/api/stats''"]
        endpoint_rate_limit_snapshot [where response = "example_response example_pdf_headers ''%PDF-1.7''"
          and lib = example_lib and ct = "''application/pdf''" and c = "PBytes ''%PDF-1.7''"
          and self_url = "''https://malware.ai''" and path = "''/api/analysis/{id}/download''"]
        endpoint_rate_limit_snapshot [where response = "example_response
              [''content-type'' \<mapsto> ''application/json; charset=UTF-8'',
               ''x-ratelimit-remaining'' \<mapsto> ''99''] ''[]''"
          and lib = example_lib and v = "''99''"
          and self_url = "''https://malware.ai''" and path = "''/api/stats''"]
  by (simp add: example_lib_def example_response_def example_rate_limit_headers_def
        example_pdf_headers_def)

text \<open>
  C6. Every envelope the wrapper returns for a response whose parsed content
  type is \<open>application/json\<close> has the decoded JSON value of the response as its
  content, and for every other content type the raw bytes; and the wrapper does
  return that envelope once the snapshot is computed, the content type is
  present and, for JSON, the body decodes.
\<close>

theorem endpoint_content_decoding:
  "(endpoint_wrapper lib self_url path (Inr response) = Inr env
      \<and> headers response ''content-type'' = Some ct
      \<and> fst (parse_content_type_header lib ct) = ''application/json'' \<longrightarrow>
        response_json lib response = Inr (content env))
   \<and> (endpoint_wrapper lib self_url path (Inr response) = Inr env
      \<and> headers response ''content-type'' = Some ct
      \<and> fst (parse_content_type_header lib ct) \<noteq> ''application/json'' \<longrightarrow>
        content env = PBytes (http_content response))
   \<and> (endpoint_quota lib response = Inr q
      \<and> headers response ''content-type'' = Some ct
      \<and> fst (parse_content_type_header lib ct) = ''application/json''
      \<and> response_json lib response = Inr j \<longrightarrow>
        endpoint_wrapper lib self_url path (Inr response)
          = Inr \<lparr>endpoint = urljoin lib self_url path, status = status_code response,
                 rate_limit = q, content_type = parse_content_type_header lib ct, content = j\<rparr>)
   \<and> (endpoint_quota lib response = Inr q
      \<and> headers response ''content-type'' = Some ct
      \<and> fst (parse_content_type_header lib ct) \<noteq> ''application/json'' \<longrightarrow>
        endpoint_wrapper lib self_url path (Inr response)
          = Inr \<lparr>endpoint = urljoin lib self_url path, status = status_code response,
                 rate_limit = q, content_type = parse_content_type_header lib ct,
                 content = PBytes (http_content response)\<rparr>)"
  by (auto simp: endpoint_wrapper_def lookup_header_def split: sum.splits if_splits)

theorem endpoint_content_decoding_witness:
  "endpoint_wrapper example_lib ''https://malware.ai'' ''/api/analysis''
      (Inr (example_response example_rate_limit_headers ''[]''))
    = Inr \<lparr>endpoint = ''https://malware.ai/api/analysis'', status = 200,
           rate_limit = Some \<lparr>limit = 100, remaining = 99,
             reset = \<lparr>day = 20, month = 3, year = 2023, hour = 22, minute = 16, second = 47,
                      tzinfo = Some UTC\<rparr>\<rparr>,
           content_type = (''application/json'', [(''charset'', ''UTF-8'')]),
           content = PList []\<rparr>
   \<and> endpoint_wrapper example_lib ''https://malware.ai'' ''/api/analysis/{id}/download''
      (Inr (example_response example_pdf_headers ''%PDF-1.7''))
    = Inr \<lparr>endpoint = ''https://malware.ai/api/analysis/{id}/download'', status = 200,
           rate_limit = None,
           content_type = (''application/pdf'', []),
           content = PBytes ''%PDF-1.7''\<rparr>"
  using endpoint_content_decoding [where response = "example_response example_rate_limit_headers ''[]''"
          and lib = example_lib and ct = "''application/json; charset=UTF-8''" and j = "PList []"
          and q = "Some \<lparr>limit = 100, remaining = 99,
             reset = \<lparr>day = 20, month = 3, year = 2023, hour = 22, minute = 16, second = 47,
                      tzinfo = Some UTC\<rparr>\<rparr>"
          and self_url = "''https://malware.ai''" and path = "''/api/analysis''"]
        endpoint_content_decoding [where response = "example_response example_pdf_headers ''%PDF-1.7''"
          and lib = example_lib and ct = "''application/pdf''" and q = None
          and self_url = "''https://malware.ai''" and path = "''/api/analysis/{id}/download''"]
  by (simp add: endpoint_quota_def lookup_header_def example_lib_def example_response_def
        example_rate_limit_headers_def example_pdf_headers_def)

section \<open>Closing and reopening\<close>

text \<open>
  The session the property builds, field by field; it does not depend on the
  reference the client holds.
\<close>

lemma new_session_fields:
  "base_url (new_session lib self) = url self"
  "session_headers (new_session lib self) = [(''Authorization'', ''Bearer '' @ license_key self)]"
  "adapters (new_session lib self) ''http://'' = Some (TimeoutHTTPAdapter (timeout self) retry_strategy)"
  "adapters (new_session lib self) ''https://'' = Some (TimeoutHTTPAdapter (timeout self) retry_strategy)"
  "\<not> is_closed (new_session lib self)"
  by (simp_all add: new_session_def Let_def mount_def sessions_BaseUrlSession_def)

lemma new_session_private_api [simp]:
  "new_session lib (self\<lparr>private_api := r\<rparr>) = new_session lib self"
  by (simp add: new_session_def Let_def)

text \<open>What \<^verbatim>\<open>close\<close> and the property do to the client and the heap.\<close>

lemma close_client: "fst (WebClient_close self h) = self\<lparr>private_api := None\<rparr>"
  by (simp add: WebClient_close_def split: option.splits)

lemma close_heap_length: "length (snd (WebClient_close self h)) = length h"
  by (simp add: WebClient_close_def split: option.splits)

lemma close_closes:
  "private_api self = Some r \<Longrightarrow> r < length h \<Longrightarrow> is_closed (snd (WebClient_close self h) ! r)"
  by (simp add: WebClient_close_def)

lemma close_keeps_others:
  "private_api self \<noteq> Some i \<Longrightarrow> snd (WebClient_close self h) ! i = h ! i"
  by (auto simp: WebClient_close_def split: option.splits)

lemma api_creates:
  "private_api self = None \<Longrightarrow>
   WebClient_api lib self h
     = (length h, self\<lparr>private_api := Some (length h)\<rparr>, h @ [new_session lib self])"
  by (simp add: WebClient_api_def)

lemma api_reuses:
  "private_api self = Some r \<Longrightarrow> WebClient_api lib self h = (r, self, h)"
  by (simp add: WebClient_api_def)

text \<open>
  C8. For a client whose reference, if it holds one, points into the heap:
  \<^verbatim>\<open>close\<close> sets \<^verbatim>\<open>_api\<close> to \<open>None\<close>, changes no other attribute and closes
  the session the client held. The property then creates a session at a
  reference that did not exist before, stores it in the client, and a request
  sent afterwards goes out on it. That session is open and is built from the
  client's attributes: base URL, the header \<open>Authorization: Bearer\<close> with the
  license key, and on both prefixes the timeout adapter with the retry policy
  restricted to GET; it is the very session a client with these attributes gets
  on first use, also one that was just constructed. Assigning \<open>None\<close> to the
  property is \<^verbatim>\<open>close\<close>.
\<close>

theorem close_then_reopen:
  assumes "\<forall>r. private_api self = Some r \<longrightarrow> r < length h"
  shows "fst (WebClient_close self h) = self\<lparr>private_api := None\<rparr>
    \<and> length (snd (WebClient_close self h)) = length h
    \<and> (\<forall>r. private_api self = Some r \<longrightarrow> is_closed (snd (WebClient_close self h) ! r))
    \<and> WebClient_api lib (fst (WebClient_close self h)) (snd (WebClient_close self h))
        = (length h, self\<lparr>private_api := Some (length h)\<rparr>,
           snd (WebClient_close self h) @ [new_session lib self])
    \<and> api_get lib (fst (WebClient_close self h)) (snd (WebClient_close self h)) path params
        = (\<lparr>req_method = ''GET'', req_path = path, req_params = params, req_session = length h\<rparr>,
           self\<lparr>private_api := Some (length h)\<rparr>,
           snd (WebClient_close self h) @ [new_session lib self])
    \<and> (snd (WebClient_close self h) @ [new_session lib self]) ! length h = new_session lib self
    \<and> \<not> is_closed (new_session lib self)
    \<and> base_url (new_session lib self) = url self
    \<and> session_headers (new_session lib self)
        = [(''Authorization'', ''Bearer '' @ license_key self)]
    \<and> adapters (new_session lib self) ''http://''
        = Some (TimeoutHTTPAdapter (timeout self) retry_strategy)
    \<and> adapters (new_session lib self) ''https://''
        = Some (TimeoutHTTPAdapter (timeout self) retry_strategy)
    \<and> allowed_methods retry_strategy = [''GET'']
    \<and> (private_api self = None \<longrightarrow>
          WebClient_api lib self h
            = (length h, self\<lparr>private_api := Some (length h)\<rparr>, h @ [new_session lib self]))
    \<and> new_session lib (WebClient_init (license_key self) (url self) (timeout self))
        = new_session lib self
    \<and> WebClient_api_setter self h None = WebClient_close self h"
proof -
  let ?c = "fst (WebClient_close self h)" and ?h = "snd (WebClient_close self h)"
  have c: "?c = self\<lparr>private_api := None\<rparr>" by (rule close_client)
  have len: "length ?h = length h" by (rule close_heap_length)
  have closed: "\<forall>r. private_api self = Some r \<longrightarrow> is_closed (?h ! r)"
    using assms close_closes by blast
  have "private_api ?c = None" by (simp add: c)
  then have "WebClient_api lib ?c ?h = (length ?h, ?c\<lparr>private_api := Some (length ?h)\<rparr>,
                 ?h @ [new_session lib ?c])"
    by (rule api_creates)
  then have api: "WebClient_api lib ?c ?h
      = (length h, self\<lparr>private_api := Some (length h)\<rparr>, ?h @ [new_session lib self])"
    by (simp add: c len)
  have get: "api_get lib ?c ?h path params
        = (\<lparr>req_method = ''GET'', req_path = path, req_params = params, req_session = length h\<rparr>,
           self\<lparr>private_api := Some (length h)\<rparr>, ?h @ [new_session lib self])"
    unfolding api_get_def api by simp
  have nth: "(?h @ [new_session lib self]) ! length h = new_session lib self"
    using len by (metis nth_append_length)
  have meth: "allowed_methods retry_strategy = [''GET'']"
    by (simp add: retry_strategy_def)
  have first: "private_api self = None \<longrightarrow>
          WebClient_api lib self h
            = (length h, self\<lparr>private_api := Some (length h)\<rparr>, h @ [new_session lib self])"
    by (simp add: api_creates)
  have init: "new_session lib (WebClient_init (license_key self) (url self) (timeout self))
        = new_session lib self"
    by (simp add: new_session_def WebClient_init_def Let_def)
  have setter: "WebClient_api_setter self h None = WebClient_close self h"
    by (simp add: WebClient_api_setter_def)
  show ?thesis
    by (intro conjI c len closed api get nth meth first init setter new_session_fields)
qed

theorem close_then_reopen_witness:
  "private_api (example_client (Some 0)) = Some 0
   \<and> is_closed (snd (WebClient_close (example_client (Some 0))
          [new_session example_lib (example_client None)]) ! 0)
   \<and> private_api (fst (WebClient_close (example_client (Some 0))
          [new_session example_lib (example_client None)])) = None
   \<and> req_session (fst (WebClient_ping example_lib
        (fst (WebClient_close (example_client (Some 0)) [new_session example_lib (example_client None)]))
        (snd (WebClient_close (example_client (Some 0)) [new_session example_lib (example_client None)]))))
      = 1"
proof -
  let ?c = "example_client (Some 0)" and ?h = "[new_session example_lib (example_client None)]"
  have p: "private_api ?c = Some 0"
    by (simp add: example_client_def)
  then have wf: "\<forall>r. private_api ?c = Some r \<longrightarrow> r < length ?h"
    by simp
  note t = close_then_reopen [OF wf, of example_lib "''/ping''" "[]"]
  have closed: "is_closed (snd (WebClient_close ?c ?h) ! 0)"
    using t p by blast
  have none: "private_api (fst (WebClient_close ?c ?h)) = None"
    using t by simp
  have "api_get example_lib (fst (WebClient_close ?c ?h)) (snd (WebClient_close ?c ?h)) ''/ping'' []
      = (\<lparr>req_method = ''GET'', req_path = ''/ping'', req_params = [], req_session = length ?h\<rparr>,
         ?c\<lparr>private_api := Some (length ?h)\<rparr>,
         snd (WebClient_close ?c ?h) @ [new_session example_lib ?c])"
    using t by blast
  then have "req_session (fst (WebClient_ping example_lib (fst (WebClient_close ?c ?h))
                 (snd (WebClient_close ?c ?h)))) = 1"
    by (simp add: WebClient_ping_def)
  with p closed none show ?thesis by blast
qed

section \<open>The list filter\<close>

text \<open>
  C9. A filter that is one of \<open>all\<close>, \<open>finished\<close>, \<open>unfinished\<close>, \<open>error\<close> is
  sent unchanged as the query parameter \<open>filter\<close> and nothing is logged; any
  other value is logged in a warning and \<open>all\<close> is sent in its place.
\<close>

theorem list_analyses_filter:
  "(f \<in> {''all'', ''finished'', ''unfinished'', ''error''} \<longrightarrow>
      WebClient_list_analyses lib self h (Some f) path
        = (case api_get lib self h path [(''filter'', f)] of
             (req, self', h') \<Rightarrow> ([], req, self', h')))
   \<and> (f \<notin> {''all'', ''finished'', ''unfinished'', ''error''} \<longrightarrow>
      WebClient_list_analyses lib self h (Some f) path
        = (case api_get lib self h path [(''filter'', ''all'')] of
             (req, self', h') \<Rightarrow> ([(''Unknown filter %s.'', f)], req, self', h')))
   \<and> req_params (fst (snd (WebClient_list_analyses lib self h (Some f) path)))
        = [(''filter'', if f \<in> {''all'', ''finished'', ''unfinished'', ''error''} then f else ''all'')]
   \<and> req_method (fst (snd (WebClient_list_analyses lib self h (Some f) path))) = ''GET''
   \<and> req_path (fst (snd (WebClient_list_analyses lib self h (Some f) path))) = path"
  by (auto simp: WebClient_list_analyses_def Let_def api_get_def split: prod.splits)

theorem list_analyses_filter_witness:
  "fst (WebClient_list_analyses example_lib (example_client None) [] (Some ''finished'') ''/api/analysis'')
     = []
   \<and> req_params (fst (snd (WebClient_list_analyses example_lib (example_client None) []
        (Some ''finished'') ''/api/analysis''))) = [(''filter'', ''finished'')]
   \<and> fst (WebClient_list_analyses example_lib (example_client None) [] (Some ''FINISHED'') ''/api/analysis'')
     = [(''Unknown filter %s.'', ''FINISHED'')]
   \<and> req_params (fst (snd (WebClient_list_analyses example_lib (example_client None) []
        (Some ''FINISHED'') ''/api/analysis''))) = [(''filter'', ''all'')]"
  using list_analyses_filter [of "''finished''" example_lib "example_client None" "[]" "''/api/analysis''"]
        list_analyses_filter [of "''FINISHED''" example_lib "example_client None" "[]" "''/api/analysis''"]
  by (simp add: api_get_def WebClient_api_def example_client_def split: prod.splits)

end
